theory Spec2Isabelle
  imports Complex_Main
begin

section \<open>Floating-point rounding\<close>

text \<open>
  The raster bands are NumPy arrays of 32-bit or 64-bit floats, and the band math is
  carried out in the precision of the array. \<open>fl p x\<close> is the real number \<open>x\<close>
  rounded to the nearest float with a significand of \<open>p\<close> bits, ties to the even
  significand. The exponent range is not bounded: the operations of the script (a sum with
  \<open>1e-10\<close>, a decimal logarithm, a product with 10) neither overflow nor lose
  precision to underflow on finite floats.
\<close>

datatype dtype = Float32 | Float64

fun precision :: "dtype \<Rightarrow> nat" where
  "precision Float32 = 24"
| "precision Float64 = 53"

definition round_half_even :: "real \<Rightarrow> int" where
  "round_half_even t =
     (if t - of_int \<lfloor>t\<rfloor> < 1 / 2 then \<lfloor>t\<rfloor>
      else if 1 / 2 < t - of_int \<lfloor>t\<rfloor> then \<lfloor>t\<rfloor> + 1
      else if even \<lfloor>t\<rfloor> then \<lfloor>t\<rfloor> else \<lfloor>t\<rfloor> + 1)"

text \<open>The exponent of the unit in the last place of a nonzero \<open>x\<close>.\<close>

definition ulp_exponent :: "nat \<Rightarrow> real \<Rightarrow> int" where
  "ulp_exponent p x = \<lfloor>log 2 \<bar>x\<bar>\<rfloor> - int p + 1"

definition fl :: "nat \<Rightarrow> real \<Rightarrow> real" where
  "fl p x =
     (if x = 0 then 0
      else of_int (round_half_even (x / 2 powr of_int (ulp_exponent p x)))
             * 2 powr of_int (ulp_exponent p x))"

section \<open>Array elements\<close>

text \<open>
  An element is a finite number or one of the three IEEE special values. The result of
  each arithmetic operation on finite values is rounded by \<open>fl\<close>; the decimal logarithm
  is taken to be correctly rounded. The special values behave as in NumPy: the logarithm
  of zero is minus infinity, the logarithm of a negative number is NaN (both with a
  warning, not an exception), and every ordered comparison with NaN is false.
\<close>

datatype npfloat = Fin real | PInf | NInf | NaN

fun np_add :: "nat \<Rightarrow> npfloat \<Rightarrow> npfloat \<Rightarrow> npfloat" where
  "np_add p NaN _ = NaN"
| "np_add p _ NaN = NaN"
| "np_add p PInf NInf = NaN"
| "np_add p NInf PInf = NaN"
| "np_add p PInf _ = PInf"
| "np_add p _ PInf = PInf"
| "np_add p NInf _ = NInf"
| "np_add p _ NInf = NInf"
| "np_add p (Fin a) (Fin b) = Fin (fl p (a + b))"

fun np_scale :: "nat \<Rightarrow> real \<Rightarrow> npfloat \<Rightarrow> npfloat" where
  "np_scale p k NaN = NaN"
| "np_scale p k (Fin a) = Fin (fl p (k * a))"
| "np_scale p k PInf = (if 0 < k then PInf else if k < 0 then NInf else NaN)"
| "np_scale p k NInf = (if 0 < k then NInf else if k < 0 then PInf else NaN)"

fun np_log10 :: "nat \<Rightarrow> npfloat \<Rightarrow> npfloat" where
  "np_log10 p (Fin a) =
     (if 0 < a then Fin (fl p (log 10 a)) else if a = 0 then NInf else NaN)"
| "np_log10 p PInf = PInf"
| "np_log10 p NInf = NaN"
| "np_log10 p NaN = NaN"

fun np_less :: "npfloat \<Rightarrow> npfloat \<Rightarrow> bool" where
  "np_less NaN _ = False"
| "np_less _ NaN = False"
| "np_less (Fin a) (Fin b) = (a < b)"
| "np_less NInf NInf = False"
| "np_less NInf _ = True"
| "np_less PInf _ = False"
| "np_less (Fin a) PInf = True"
| "np_less (Fin a) NInf = False"

fun np_eq :: "npfloat \<Rightarrow> npfloat \<Rightarrow> bool" where
  "np_eq NaN _ = False"
| "np_eq _ NaN = False"
| "np_eq a b = (a = b)"


fun isnan :: "npfloat \<Rightarrow> bool" where
  "isnan NaN = True"
| "isnan _ = False"

text \<open>
  The constant \<open>1e-10\<close> of lines 132 and 133 is a Python float, the double nearest to
  \<open>1 / 10 ^ 10\<close>; in a sum with a 32-bit array it is first converted to 32 bits.
\<close>

fun epsilon :: "dtype \<Rightarrow> real" where
  "epsilon Float64 = fl 53 (1 / 10 ^ 10)"
| "epsilon Float32 = fl 24 (fl 53 (1 / 10 ^ 10))"

declare epsilon.simps [simp del]

text \<open>The scalar expression \<open>10 * np.log10(x + 1e-10)\<close> applied to one element.\<close>

definition to_db :: "dtype \<Rightarrow> npfloat \<Rightarrow> npfloat" where
  "to_db dt x =
     np_scale (precision dt) 10
       (np_log10 (precision dt) (np_add (precision dt) x (Fin (epsilon dt))))"

text \<open>The threshold \<open>-22\<close> of lines 138 and 139.\<close>

definition is_noise :: "npfloat \<Rightarrow> bool" where
  "is_noise d = np_less d (Fin (- 22))"

definition is_nodata :: "npfloat \<Rightarrow> bool" where
  "is_nodata m = np_eq m (Fin 0)"

section \<open>Two-dimensional arrays\<close>

type_synonym 'a array2 = "'a list list"

definition arr_map :: "('a \<Rightarrow> 'b) \<Rightarrow> 'a array2 \<Rightarrow> 'b array2" where
  "arr_map f a = map (map f) a"

text \<open>
  Element-wise binary operations; in the pipeline both operands always have the shape of
  the raster, so NumPy's broadcasting never applies.
\<close>

definition arr_map2 :: "('a \<Rightarrow> 'b \<Rightarrow> 'c) \<Rightarrow> 'a array2 \<Rightarrow> 'b array2 \<Rightarrow> 'c array2" where
  "arr_map2 f a b = map2 (map2 f) a b"

section \<open>The raster\<close>

text \<open>
  The exceptions the script can meet; \<open>LibraryError msg\<close> is an exception raised inside a
  library call (network, file or decoding failure), known by its message.
\<close>

datatype py_error =
  IndexError | ValueError | NotImplementedError | FileNotFoundError | LibraryError string

text \<open>
  An opened dataset has one height and one width for all its bands; \<open>r_sample b r c\<close> is
  the sample of band \<open>b\<close> (counted from 1, as \<open>src.read\<close> counts) at row \<open>r\<close>, column
  \<open>c\<close>.
\<close>

record raster =
  r_crs :: string
  r_dtype :: dtype
  r_count :: nat
  r_height :: nat
  r_width :: nat
  r_sample :: "nat \<Rightarrow> nat \<Rightarrow> nat \<Rightarrow> npfloat"

definition band_array :: "raster \<Rightarrow> nat \<Rightarrow> npfloat array2" where
  "band_array src b =
     map (\<lambda>r. map (\<lambda>c. r_sample src b r c) [0..<r_width src]) [0..<r_height src]"

text \<open>\<open>src.read(b)\<close>: a band index outside \<open>1..count\<close> raises IndexError.\<close>

definition read_band :: "raster \<Rightarrow> nat \<Rightarrow> py_error + npfloat array2" where
  "read_band src b =
     (if 1 \<le> b \<and> b \<le> r_count src then Inr (band_array src b) else Inl IndexError)"

section \<open>Band math and invalid-pixel masks (lines 128 to 141)\<close>

text \<open>
  Arrays live in a store; a variable of the script holds the address of its array. The
  Boolean masks are never written to after their creation and are kept as values.
\<close>

type_synonym addr = nat
type_synonym store = "npfloat array2 list"

definition np_alloc :: "store \<Rightarrow> npfloat array2 \<Rightarrow> store \<times> addr" where
  "np_alloc h a = (h @ [a], length h)"

record analysis =
  heap :: store
  vv_band_linear :: addr
  vh_band_linear :: addr
  datamask :: addr
  vv_band_db :: addr
  vh_band_db :: addr
  nodata_mask :: "bool array2"
  vv_noise_mask :: "bool array2"
  vh_noise_mask :: "bool array2"
  vv_invalid_mask :: "bool array2"
  vh_invalid_mask :: "bool array2"

definition band_math :: "raster \<Rightarrow> py_error + analysis" where
  "band_math src =
     (case read_band src 1 of Inl e \<Rightarrow> Inl e | Inr vv \<Rightarrow>
     (case read_band src 2 of Inl e \<Rightarrow> Inl e | Inr vh \<Rightarrow>
     (case read_band src 3 of Inl e \<Rightarrow> Inl e | Inr dm \<Rightarrow>
       (let (h1, a_vv) = np_alloc [] vv;
            (h2, a_vh) = np_alloc h1 vh;
            (h3, a_dm) = np_alloc h2 dm;
            (h4, a_vv_db) = np_alloc h3 (arr_map (to_db (r_dtype src)) (h3 ! a_vv));
            (h5, a_vh_db) = np_alloc h4 (arr_map (to_db (r_dtype src)) (h4 ! a_vh));
            nodata = arr_map is_nodata (h5 ! a_dm);
            vv_noise = arr_map is_noise (h5 ! a_vv_db);
            vh_noise = arr_map is_noise (h5 ! a_vh_db)
        in Inr \<lparr> heap = h5,
                 vv_band_linear = a_vv, vh_band_linear = a_vh, datamask = a_dm,
                 vv_band_db = a_vv_db, vh_band_db = a_vh_db,
                 nodata_mask = nodata, vv_noise_mask = vv_noise, vh_noise_mask = vh_noise,
                 vv_invalid_mask = arr_map2 (\<or>) nodata vv_noise,
                 vh_invalid_mask = arr_map2 (\<or>) nodata vh_noise \<rparr>))))"

text \<open>Reading a pixel of an array held in the store.\<close>

definition pixel :: "analysis \<Rightarrow> addr \<Rightarrow> nat \<Rightarrow> nat \<Rightarrow> npfloat" where
  "pixel a p i j = heap a ! p ! i ! j"

section \<open>Display arrays (lines 150 to 156)\<close>

definition np_copy :: "store \<Rightarrow> addr \<Rightarrow> store \<times> addr" where
  "np_copy h p = np_alloc h (h ! p)"

text \<open>
  \<open>a[mask] = v\<close> writes \<open>v\<close> in place into the array at address \<open>p\<close>, at the positions
  where the mask is true.
\<close>

definition np_setmask :: "store \<Rightarrow> addr \<Rightarrow> bool array2 \<Rightarrow> npfloat \<Rightarrow> store" where
  "np_setmask h p msk v = h[p := arr_map2 (\<lambda>x b. if b then v else x) (h ! p) msk]"

record display =
  d_analysis :: analysis
  vv_display :: addr
  vh_display :: addr

definition prepare_display :: "analysis \<Rightarrow> display" where
  "prepare_display a =
     (let (h1, a_vv_disp) = np_copy (heap a) (vv_band_db a);
          (h2, a_vh_disp) = np_copy h1 (vh_band_db a);
          h3 = np_setmask h2 a_vv_disp (vv_invalid_mask a) NaN;
          h4 = np_setmask h3 a_vh_disp (vh_invalid_mask a) NaN
      in \<lparr> d_analysis = a\<lparr>heap := h4\<rparr>, vv_display = a_vv_disp, vh_display = a_vh_disp \<rparr>)"


section \<open>Vector overlay (lines 187 to 211)\<close>

type_synonym point = "real \<times> real"

text \<open>
  A geometry of the shapefile: a polygon with its exterior ring and its holes, a geometry
  with one coordinate sequence (point, line string, linear ring), or a multi-part geometry,
  whose \<open>coords\<close> attribute raises NotImplementedError. Coordinates are pairs: the
  geometries are taken to be two-dimensional.
\<close>

datatype geometry =
  Polygon (exterior: "point list") (interiors: "point list list")
| Curve "point list"
| MultiPart

datatype path_code = MOVETO | LINETO | CLOSEPOLY

record path =
  vertices :: "point list"
  codes :: "path_code list"

text \<open>
  The constructor \<open>Path(vertices, codes)\<close> raises ValueError unless there are as many
  codes as vertices and the first code, if any, is MOVETO.
\<close>

definition Path :: "point list \<Rightarrow> path_code list \<Rightarrow> py_error + path" where
  "Path vs cs =
     (if length cs \<noteq> length vs then Inl ValueError
      else if cs \<noteq> [] \<and> hd cs \<noteq> MOVETO then Inl ValueError
      else Inr \<lparr> vertices = vs, codes = cs \<rparr>)"

definition outer_coords :: "real \<times> real \<Rightarrow> real \<times> real \<Rightarrow> point list" where
  "outer_coords xlim ylim =
     [(fst xlim, fst ylim), (snd xlim, fst ylim), (snd xlim, snd ylim), (fst xlim, snd ylim),
      (fst xlim, fst ylim)]"

definition outer_codes :: "path_code list" where
  "outer_codes = [MOVETO, LINETO, LINETO, LINETO, CLOSEPOLY]"

text \<open>\<open>shp_utm.geometry.iloc[0]\<close>: IndexError on a shapefile without features.\<close>

definition iloc0 :: "geometry list \<Rightarrow> py_error + geometry" where
  "iloc0 gs = (case gs of [] \<Rightarrow> Inl IndexError | g # _ \<Rightarrow> Inr g)"

fun inner_coords :: "geometry \<Rightarrow> py_error + point list" where
  "inner_coords (Polygon ext holes) = Inr ext"
| "inner_coords (Curve cs) = Inr cs"
| "inner_coords MultiPart = Inl NotImplementedError"

text \<open>
  \<open>[Path.LINETO] * (len(inner_coords) - 2)\<close> is the empty list when the count is not
  positive, as \<open>replicate\<close> on the truncated difference is.
\<close>

definition inner_codes :: "point list \<Rightarrow> path_code list" where
  "inner_codes cs = [MOVETO] @ replicate (length cs - 2) LINETO @ [CLOSEPOLY]"

definition compound_path :: "real \<times> real \<Rightarrow> real \<times> real \<Rightarrow> geometry list \<Rightarrow> py_error + path" where
  "compound_path xlim ylim gs =
     (case iloc0 gs of Inl e \<Rightarrow> Inl e | Inr geom \<Rightarrow>
     (case inner_coords geom of Inl e \<Rightarrow> Inl e | Inr inner \<Rightarrow>
        Path (outer_coords xlim ylim @ inner) (outer_codes @ inner_codes inner)))"

record patch =
  patch_path :: path
  facecolor :: string
  alpha :: real
  zorder :: int

text \<open>
  The loop over the axes: each axis is given by its limits \<open>(xlim, ylim)\<close>; the first
  exception ends the loop.
\<close>

fun overlay_patches :: "((real \<times> real) \<times> (real \<times> real)) list \<Rightarrow> geometry list \<Rightarrow> py_error + patch list" where
  "overlay_patches [] gs = Inr []"
| "overlay_patches ((xlim, ylim) # axs) gs =
     (case compound_path xlim ylim gs of Inl e \<Rightarrow> Inl e | Inr p \<Rightarrow>
     (case overlay_patches axs gs of Inl e \<Rightarrow> Inl e | Inr ps \<Rightarrow>
        Inr (\<lparr> patch_path = p, facecolor = ''white'', alpha = 1, zorder = 10 \<rparr> # ps)))"

section \<open>Text\<close>

text \<open>\<open>str\<close> of an integer, as the f-strings of the script print it.\<close>

definition digit :: "nat \<Rightarrow> char" where
  "digit n = ''0123456789'' ! (n mod 10)"

fun str_nat :: "nat \<Rightarrow> string" where
  "str_nat n = (if n < 10 then [digit n] else str_nat (n div 10) @ [digit n])"

declare str_nat.simps [simp del]

definition str_int :: "int \<Rightarrow> string" where
  "str_int i = (if i < 0 then ''-'' @ str_nat (nat (- i)) else str_nat (nat i))"

text \<open>\<open>not x\<close> for a value that is \<open>None\<close>, a string or a byte string.\<close>

definition py_not :: "string option \<Rightarrow> bool" where
  "py_not x = (case x of None \<Rightarrow> True | Some s \<Rightarrow> s = [])"

section \<open>The pipeline\<close>

record response =
  status_code :: int
  content :: string

text \<open>
  What the script meets outside itself: the two environment values, the answer of the
  library to the token exchange (an exception or a token), the evalscript file (\<open>None\<close>
  when it cannot be opened), the answer to the one POST (an exception or a response), the
  result of opening the received bytes as a raster, the geometries of the shapefile once
  read and reprojected, and the limits of the two axes.
\<close>

record environment =
  CLIENT_ID :: "string option"
  CLIENT_SECRET :: "string option"
  fetch_token_result :: "string + string"
  evalscript_js :: "string option"
  post_result :: "string + response"
  rasterio_open_result :: "string + raster"
  shapefile_result :: "string + geometry list"
  axes_limits :: "((real \<times> real) \<times> (real \<times> real)) list"

record figure =
  fig_display :: display
  fig_patches :: "patch list"

text \<open>
  The module-level variables the claims speak of, the lines printed so far and the number
  of POST requests sent.
\<close>

record pstate =
  printed :: "string list"
  token :: "string option"
  evalscript_linear_power :: "string option"
  posts :: nat
  image_bytes :: "string option"
  src :: "raster option"
  fig :: "figure option"

text \<open>A stage either falls through to the next one or ends the program.\<close>

datatype halt = Exit | Uncaught py_error

definition say :: "string \<Rightarrow> pstate \<Rightarrow> pstate" where
  "say line s = s\<lparr>printed := printed s @ [line]\<rparr>"

definition initial :: pstate where
  "initial = \<lparr> printed = [], token = None, evalscript_linear_power = None, posts = 0,
               image_bytes = None, src = None, fig = None \<rparr>"

definition stage1 :: "environment \<Rightarrow> pstate \<Rightarrow> pstate \<times> halt option" where
  "stage1 env s =
     (let s1 = (if py_not (CLIENT_ID env) \<or> py_not (CLIENT_SECRET env)
                then say ''Please ensure you have a .env file with your credentials.''
                       (say ''FATAL: CLIENT_ID or CLIENT_SECRET not found.'' s)
                else say ''Credentials successfully loaded from .env file.'' s)
      in (say ''Configuration loaded and ready.'' s1, None))"

definition stage2 :: "environment \<Rightarrow> pstate \<Rightarrow> pstate \<times> halt option" where
  "stage2 env s =
     (case fetch_token_result env of
        Inr tok \<Rightarrow> (say ''Authentication successful. Token obtained.'' (s\<lparr>token := Some tok\<rparr>), None)
      | Inl e \<Rightarrow> (say (''Authentication failed: '' @ e) s, None))"

definition stage3 :: "environment \<Rightarrow> pstate \<Rightarrow> pstate \<times> halt option" where
  "stage3 env s =
     (case evalscript_js env of
        None \<Rightarrow> (s, Some (Uncaught FileNotFoundError))
      | Some script \<Rightarrow>
          (say (''Requesting data for BBox: [694512.806609, 5666404.740308, 694896.980069, ''
                @ ''5666790.60716] in time range: 2023-06-01T00:00:00Z/2023-06-30T23:59:59Z'')
             (say ''Request payload defined.'' (s\<lparr>evalscript_linear_power := Some script\<rparr>)),
           None))"

definition stage4 :: "environment \<Rightarrow> pstate \<Rightarrow> pstate \<times> halt option" where
  "stage4 env s =
     (let s1 = s\<lparr>posts := posts s + 1\<rparr> in
      case post_result env of
        Inl e \<Rightarrow> (s1, Some (Uncaught (LibraryError e)))
      | Inr r \<Rightarrow>
          if status_code r = 200
          then (say (''Successfully received image data ('' @ str_nat (length (content r))
                     @ '' bytes).'') (s1\<lparr>image_bytes := Some (content r)\<rparr>), None)
          else ((say (''Request failed: '' @ str_int (status_code r)) s1)\<lparr>image_bytes := None\<rparr>,
                None))"

definition visualize :: "environment \<Rightarrow> raster \<Rightarrow> pstate \<Rightarrow> pstate \<times> halt option" where
  "visualize env r s =
     (case band_math r of
        Inl e \<Rightarrow> (s, Some (Uncaught e))
      | Inr a \<Rightarrow>
     (case shapefile_result env of
        Inl e \<Rightarrow> (s, Some (Uncaught (LibraryError e)))
      | Inr gs \<Rightarrow>
     (case overlay_patches (axes_limits env) gs of
        Inl e \<Rightarrow> (s, Some (Uncaught e))
      | Inr ps \<Rightarrow>
          (s\<lparr>fig := Some \<lparr> fig_display = prepare_display a, fig_patches = ps \<rparr>\<rparr>, None))))"

definition stage5 :: "environment \<Rightarrow> pstate \<Rightarrow> pstate \<times> halt option" where
  "stage5 env s =
     (if py_not (image_bytes s)
      then (say ''No image data available for visualization.'' s, Some Exit)
      else
        case rasterio_open_result env of
          Inl e \<Rightarrow> (s, Some (Uncaught (LibraryError e)))
        | Inr r \<Rightarrow>
            visualize env r
              (say (''CRS: '' @ r_crs r)
                (say (''Opened image with '' @ str_nat (r_count r) @ '' bands.'')
                  (s\<lparr>src := Some r\<rparr>))))"

definition and_then :: "pstate \<times> halt option \<Rightarrow> (pstate \<Rightarrow> pstate \<times> halt option) \<Rightarrow> pstate \<times> halt option" where
  "and_then r f = (case r of (s, None) \<Rightarrow> f s | (s, Some h) \<Rightarrow> (s, Some h))"

definition run :: "environment \<Rightarrow> pstate \<times> halt option" where
  "run env =
     and_then (and_then (and_then (and_then (stage1 env initial) (stage2 env)) (stage3 env))
       (stage4 env)) (stage5 env)"

section \<open>Test data\<close>

text \<open>Closeness of an array element to a real number, within a tolerance.\<close>

definition approx :: "npfloat \<Rightarrow> real \<Rightarrow> real \<Rightarrow> bool" where
  "approx v target tol = (case v of Fin d \<Rightarrow> \<bar>d - target\<bar> \<le> tol | _ \<Rightarrow> False)"

text \<open>
  The synthetic 2x2 raster of the end-to-end scenario, in 64-bit floats; the sample
  \<open>1e-10\<close> is the double nearest to \<open>1 / 10 ^ 10\<close>.
\<close>

definition scenario_raster :: raster where
  "scenario_raster = \<lparr> r_crs = ''EPSG:32631'', r_dtype = Float64,
     r_count = 3, r_height = 2, r_width = 2,
     r_sample = (\<lambda>b r c.
       [[[Fin 1, Fin 1], [Fin 1, Fin 1]],
        [[Fin (fl 53 (1 / 10 ^ 10)), Fin 1], [Fin 1, Fin 1]],
        [[Fin 1, Fin 1], [Fin 0, Fin 1]]] ! (b - 1) ! r ! c) \<rparr>"

definition scenario :: analysis where
  "scenario = projr (band_math scenario_raster)"

text \<open>A one-pixel raster with a negative VV sample and a set data mask.\<close>

definition negative_raster :: raster where
  "negative_raster = \<lparr> r_crs = ''EPSG:32631'', r_dtype = Float64,
     r_count = 3, r_height = 1, r_width = 1,
     r_sample = (\<lambda>b r c. [Fin (- 1), Fin 1, Fin 1] ! (b - 1)) \<rparr>"

text \<open>
  Three runs of the script: without credentials, so that the token exchange fails and the
  provider answers 401; with credentials and the provider answering 403; and with the
  provider answering 200 with an empty body.
\<close>

definition no_credentials_env :: environment where
  "no_credentials_env = \<lparr> CLIENT_ID = None, CLIENT_SECRET = None,
     fetch_token_result = Inl ''(invalid_client) Invalid client credentials'',
     evalscript_js = Some ''//VERSION=3'',
     post_result = Inr \<lparr> status_code = 401, content = ''Unauthorized'' \<rparr>,
     rasterio_open_result = Inr scenario_raster,
     shapefile_result = Inr [],
     axes_limits = [((0, 1), (0, 1)), ((0, 1), (0, 1))] \<rparr>"

definition forbidden_env :: environment where
  "forbidden_env = no_credentials_env \<lparr> CLIENT_ID := Some ''id'', CLIENT_SECRET := Some ''secret'',
     fetch_token_result := Inr ''token'',
     post_result := Inr \<lparr> status_code = 403, content = ''Forbidden'' \<rparr> \<rparr>"

definition empty_body_env :: environment where
  "empty_body_env = forbidden_env \<lparr> post_result := Inr \<lparr> status_code = 200, content = [] \<rparr> \<rparr>"

section \<open>Properties of the rounding\<close>

lemma rhe_error: "\<bar>of_int (round_half_even t) - t\<bar> \<le> 1 / 2"
  unfolding round_half_even_def by (auto simp add: abs_le_iff)

lemma rhe_of_int: "round_half_even (of_int n) = n"
  by (simp add: round_half_even_def)

lemma rhe_bounds: "\<lfloor>t\<rfloor> \<le> round_half_even t" "round_half_even t \<le> \<lfloor>t\<rfloor> + 1"
  by (simp_all add: round_half_even_def)

lemma rhe_mono: "s \<le> t \<Longrightarrow> round_half_even s \<le> round_half_even t"
proof -
  assume st: "s \<le> t"
  then have f: "\<lfloor>s\<rfloor> \<le> \<lfloor>t\<rfloor>" by (rule floor_mono)
  show ?thesis
  proof (cases "\<lfloor>s\<rfloor> = \<lfloor>t\<rfloor>")
    case True
    with st show ?thesis by (auto simp add: round_half_even_def)
  next
    case False
    with f have "\<lfloor>s\<rfloor> + 1 \<le> \<lfloor>t\<rfloor>" by simp
    with rhe_bounds(2) [of s] rhe_bounds(1) [of t] show ?thesis by linarith
  qed
qed

lemma rhe_minus: "round_half_even (- t) = - round_half_even t"
proof (cases "t = of_int \<lfloor>t\<rfloor>")
  case True
  then obtain n where "t = of_int n" by blast
  then have "- t = of_int (- n)" by simp
  then show ?thesis using \<open>t = of_int n\<close> by (simp only: rhe_of_int)
next
  case False
  then have lt: "of_int \<lfloor>t\<rfloor> < t" using of_int_floor_le [of t] by linarith
  have ut: "t \<le> of_int \<lfloor>t\<rfloor> + 1" by linarith
  have fm: "\<lfloor>- t\<rfloor> = - \<lfloor>t\<rfloor> - 1"
  proof (rule floor_unique)
    have "- real_of_int \<lfloor>t\<rfloor> - 1 \<le> - t" using ut by linarith
    then show "of_int (- \<lfloor>t\<rfloor> - 1) \<le> - t" by simp
    show "- t < of_int (- \<lfloor>t\<rfloor> - 1) + 1" using lt by simp
  qed
  show ?thesis
    unfolding round_half_even_def fm using lt by auto
qed

text \<open>Exponent and significand\<close>

lemma exponent_bounds:
  assumes "x \<noteq> 0"
  shows "2 powr of_int \<lfloor>log 2 \<bar>x\<bar>\<rfloor> \<le> \<bar>x\<bar>" "\<bar>x\<bar> < 2 powr (of_int \<lfloor>log 2 \<bar>x\<bar>\<rfloor> + 1)"
proof -
  have p: "0 < \<bar>x\<bar>" using assms by simp
  have "of_int \<lfloor>log 2 \<bar>x\<bar>\<rfloor> \<le> log 2 \<bar>x\<bar>" by simp
  then show "2 powr of_int \<lfloor>log 2 \<bar>x\<bar>\<rfloor> \<le> \<bar>x\<bar>"
    by (rule iffD1 [OF le_log_iff [OF _ p], rotated]) simp
  have "log 2 \<bar>x\<bar> < of_int \<lfloor>log 2 \<bar>x\<bar>\<rfloor> + 1" by linarith
  then show "\<bar>x\<bar> < 2 powr (of_int \<lfloor>log 2 \<bar>x\<bar>\<rfloor> + 1)"
    by (rule iffD1 [OF log_less_iff [OF _ p], rotated]) simp
qed

lemma ulp_pos: "0 < 2 powr (of_int (ulp_exponent p x) :: real)"
  by simp

lemma ulp_split:
  "2 powr (of_int (ulp_exponent p x) :: real) * 2 ^ p = 2 powr (of_int \<lfloor>log 2 \<bar>x\<bar>\<rfloor> + 1)"
proof -
  have "(2::real) ^ p = 2 powr (real p)" by (simp add: powr_realpow)
  then have "2 powr (of_int (ulp_exponent p x) :: real) * 2 ^ p
      = 2 powr (of_int (ulp_exponent p x) + real p)" by (simp add: powr_add)
  also have "of_int (ulp_exponent p x) + real p = of_int \<lfloor>log 2 \<bar>x\<bar>\<rfloor> + 1"
    by (simp add: ulp_exponent_def)
  finally show ?thesis .
qed

lemma significand_bounds:
  assumes "x \<noteq> 0" "1 \<le> p"
  shows "2 ^ (p - 1) \<le> \<bar>x\<bar> / 2 powr of_int (ulp_exponent p x)"
    "\<bar>x\<bar> / 2 powr of_int (ulp_exponent p x) < 2 ^ p"
proof -
  let ?u = "2 powr (of_int (ulp_exponent p x) :: real)"
  have u: "0 < ?u" by simp
  have "\<bar>x\<bar> < ?u * 2 ^ p" using exponent_bounds(2) [OF assms(1)] by (simp only: ulp_split)
  then show "\<bar>x\<bar> / ?u < 2 ^ p" using u by (simp add: field_simps)
  have "?u * 2 ^ p = 2 * 2 powr of_int \<lfloor>log 2 \<bar>x\<bar>\<rfloor>"
    by (simp only: ulp_split) (simp add: powr_add)
  moreover have "(2::real) ^ p = 2 * 2 ^ (p - 1)" using assms(2) by (cases p) simp_all
  ultimately have "?u * 2 ^ (p - 1) = 2 powr of_int \<lfloor>log 2 \<bar>x\<bar>\<rfloor>" by simp
  then have "?u * 2 ^ (p - 1) \<le> \<bar>x\<bar>" using exponent_bounds(1) [OF assms(1)] by simp
  then show "2 ^ (p - 1) \<le> \<bar>x\<bar> / ?u" using u by (simp add: field_simps)
qed

text \<open>Rounding to precision p\<close>

lemma fl_zero: "fl p 0 = 0"
  by (simp add: fl_def)

lemma fl_minus: "fl p (- x) = - fl p x"
  by (simp add: fl_def ulp_exponent_def rhe_minus)

lemma fl_nonzero:
  "x \<noteq> 0 \<Longrightarrow> fl p x = of_int (round_half_even (x / 2 powr of_int (ulp_exponent p x)))
             * 2 powr of_int (ulp_exponent p x)"
  by (simp add: fl_def)

lemma fl_lower:
  assumes "0 < x" "1 \<le> p"
  shows "2 powr of_int \<lfloor>log 2 x\<rfloor> \<le> fl p x"
proof -
  let ?u = "2 powr (of_int (ulp_exponent p x) :: real)"
  have x: "x \<noteq> 0" "\<bar>x\<bar> = x" using assms(1) by simp_all
  have "(2::real) ^ (p - 1) = of_int (2 ^ (p - 1))" by simp
  moreover have "of_int (2 ^ (p - 1)) \<le> x / ?u"
    using significand_bounds(1) [OF x(1) assms(2)] by (simp add: x(2))
  ultimately have "round_half_even (of_int (2 ^ (p - 1))) \<le> round_half_even (x / ?u)"
    by (intro rhe_mono)
  then have "(2::int) ^ (p - 1) \<le> round_half_even (x / ?u)" by (simp only: rhe_of_int)
  then have "(2::real) ^ (p - 1) \<le> of_int (round_half_even (x / ?u))"
    by (metis of_int_le_iff of_int_numeral of_int_power)
  then have a: "2 ^ (p - 1) * ?u \<le> of_int (round_half_even (x / ?u)) * ?u"
    by (intro mult_right_mono) simp_all
  have b: "2 ^ (p - 1) * ?u = 2 powr of_int \<lfloor>log 2 x\<rfloor>"
  proof -
    have "?u * 2 ^ p = 2 * 2 powr of_int \<lfloor>log 2 \<bar>x\<bar>\<rfloor>"
      by (simp only: ulp_split) (simp add: powr_add)
    moreover have "(2::real) ^ p = 2 * 2 ^ (p - 1)" using assms(2) by (cases p) simp_all
    ultimately show ?thesis by (simp add: x(2) mult.commute)
  qed
  show ?thesis using a unfolding b fl_nonzero [OF x(1), symmetric] .
qed

lemma fl_upper:
  assumes "0 < x" "1 \<le> p"
  shows "fl p x \<le> 2 powr (of_int \<lfloor>log 2 x\<rfloor> + 1)"
proof -
  let ?u = "2 powr (of_int (ulp_exponent p x) :: real)"
  have x: "x \<noteq> 0" "\<bar>x\<bar> = x" using assms(1) by simp_all
  have "x / ?u \<le> of_int (2 ^ p)"
    using significand_bounds(2) [OF x(1) assms(2)] by (simp add: x(2))
  then have "round_half_even (x / ?u) \<le> round_half_even (of_int (2 ^ p))"
    by (intro rhe_mono)
  then have "round_half_even (x / ?u) \<le> (2::int) ^ p" by (simp only: rhe_of_int)
  then have "of_int (round_half_even (x / ?u)) \<le> (2::real) ^ p"
    by (metis of_int_le_iff of_int_numeral of_int_power)
  then have a: "of_int (round_half_even (x / ?u)) * ?u \<le> 2 ^ p * ?u"
    by (intro mult_right_mono) simp_all
  have b: "2 ^ p * ?u = 2 powr (of_int \<lfloor>log 2 x\<rfloor> + 1)"
    using ulp_split [of p x] by (simp add: x(2) mult.commute)
  show ?thesis using a unfolding b fl_nonzero [OF x(1), symmetric] .
qed

lemma fl_pos: "0 < x \<Longrightarrow> 1 \<le> p \<Longrightarrow> 0 < fl p x"
  using fl_lower [of x p] by (smt (verit) powr_gt_zero)

lemma fl_neg: "x < 0 \<Longrightarrow> 1 \<le> p \<Longrightarrow> fl p x < 0"
  using fl_pos [of "- x" p] by (simp add: fl_minus)

lemma fl_mono_pos:
  assumes "0 < x" "x \<le> y" "1 \<le> p"
  shows "fl p x \<le> fl p y"
proof -
  have y: "0 < y" using assms by simp
  have e: "\<lfloor>log 2 x\<rfloor> \<le> \<lfloor>log 2 y\<rfloor>"
    using assms y by (intro floor_mono) simp
  show ?thesis
  proof (cases "\<lfloor>log 2 x\<rfloor> = \<lfloor>log 2 y\<rfloor>")
    case True
    then have u: "ulp_exponent p x = ulp_exponent p y"
      using assms(1) y by (simp add: ulp_exponent_def)
    let ?u = "2 powr (of_int (ulp_exponent p y) :: real)"
    have "x / ?u \<le> y / ?u" using assms(2) by (simp add: divide_right_mono)
    then have "round_half_even (x / ?u) \<le> round_half_even (y / ?u)" by (rule rhe_mono)
    then have "of_int (round_half_even (x / ?u)) * ?u \<le> of_int (round_half_even (y / ?u)) * ?u"
      by (intro mult_right_mono) simp_all
    then show ?thesis using assms(1) y by (simp add: fl_def u)
  next
    case False
    with e have "of_int \<lfloor>log 2 x\<rfloor> + 1 \<le> (of_int \<lfloor>log 2 y\<rfloor> :: real)"
      by linarith
    then have "(2::real) powr (of_int \<lfloor>log 2 x\<rfloor> + 1) \<le> 2 powr of_int \<lfloor>log 2 y\<rfloor>"
      by (intro powr_mono) simp_all
    with fl_upper [OF assms(1,3)] fl_lower [OF y assms(3)] show ?thesis by linarith
  qed
qed

lemma fl_mono:
  assumes "x \<le> y" "1 \<le> p"
  shows "fl p x \<le> fl p y"
proof -
  consider "0 < x" | "x \<le> 0" "0 \<le> y" | "y < 0" by linarith
  then show ?thesis
  proof cases
    case 1
    then show ?thesis using assms by (intro fl_mono_pos)
  next
    case 2
    have "fl p x \<le> 0" using 2(1) fl_neg [of x p] assms(2) by (cases "x = 0") (auto simp add: fl_zero)
    moreover have "0 \<le> fl p y" using 2(2) fl_pos [of y p] assms(2) by (cases "y = 0") (auto simp add: fl_zero)
    ultimately show ?thesis by simp
  next
    case 3
    then have "fl p (- y) \<le> fl p (- x)" using assms by (intro fl_mono_pos) simp_all
    then show ?thesis by (simp add: fl_minus)
  qed
qed

lemma fl_error:
  assumes "1 \<le> p"
  shows "\<bar>fl p x - x\<bar> \<le> \<bar>x\<bar> / 2 ^ p"
proof (cases "x = 0")
  case True
  then show ?thesis by (simp add: fl_zero)
next
  case False
  let ?u = "2 powr (of_int (ulp_exponent p x) :: real)"
  have u: "0 < ?u" by simp
  have "\<bar>of_int (round_half_even (x / ?u)) - x / ?u\<bar> \<le> 1 / 2" by (rule rhe_error)
  then have "\<bar>of_int (round_half_even (x / ?u)) - x / ?u\<bar> * ?u \<le> 1 / 2 * ?u"
    by (intro mult_right_mono) simp_all
  moreover have "\<bar>of_int (round_half_even (x / ?u)) - x / ?u\<bar> * ?u
      = \<bar>of_int (round_half_even (x / ?u)) * ?u - x\<bar>"
  proof -
    have "\<bar>of_int (round_half_even (x / ?u)) - x / ?u\<bar> * ?u
      = \<bar>(of_int (round_half_even (x / ?u)) - x / ?u) * ?u\<bar>"
      using u by (simp add: abs_mult)
    also have "(of_int (round_half_even (x / ?u)) - x / ?u) * ?u
      = of_int (round_half_even (x / ?u)) * ?u - x"
      using u by (simp add: left_diff_distrib)
    finally show ?thesis .
  qed
  ultimately have e1: "\<bar>fl p x - x\<bar> \<le> ?u / 2" by (simp add: fl_nonzero [OF False])
  have "2 ^ (p - 1) \<le> \<bar>x\<bar> / ?u" by (rule significand_bounds(1) [OF False assms])
  then have "?u * 2 ^ (p - 1) \<le> \<bar>x\<bar>" using u by (simp add: field_simps)
  moreover have "(2::real) ^ p = 2 * 2 ^ (p - 1)" using assms by (cases p) simp_all
  ultimately have "?u / 2 \<le> \<bar>x\<bar> / 2 ^ p" by (simp add: field_simps)
  with e1 show ?thesis by linarith
qed

text \<open>Evaluation at concrete values\<close>

lemma rhe_near:
  assumes "\<bar>t - of_int m\<bar> < 1 / 2"
  shows "round_half_even t = m"
proof (cases "of_int m \<le> t")
  case True
  with assms have "\<lfloor>t\<rfloor> = m" by (intro floor_unique) (auto simp add: abs_less_iff)
  with assms True show ?thesis by (auto simp add: round_half_even_def abs_less_iff)
next
  case False
  with assms have "\<lfloor>t\<rfloor> = m - 1" by (intro floor_unique) (auto simp add: abs_less_iff)
  with assms False show ?thesis by (auto simp add: round_half_even_def abs_less_iff)
qed

lemma fl_eval_small:
  assumes "1 / 2 ^ k \<le> x" "x < 2 / 2 ^ k" "\<bar>x * 2 ^ (k + p - 1) - of_int m\<bar> < 1 / 2" "1 \<le> p"
  shows "fl p x = of_int m / 2 ^ (k + p - 1)"
proof -
  have x: "0 < x" using assms(1) by (smt (verit) divide_pos_pos zero_less_power)
  have pk: "(2::real) powr of_int (- int n) = 1 / 2 ^ n" for n
    by (simp add: powr_minus powr_realpow inverse_eq_divide)
  have "2 powr of_int (- int k) \<le> x" using assms(1) by (simp only: pk)
  moreover have "x < 2 powr (of_int (- int k) + 1)"
    using assms(2) by (simp only: powr_add pk) simp
  ultimately have "\<lfloor>log 2 x\<rfloor> = - int k"
    using x by (subst floor_log_eq_powr_iff) simp_all
  then have "ulp_exponent p x = - int (k + p - 1)"
    using x assms(4) by (simp add: ulp_exponent_def)
  then have u: "2 powr (of_int (ulp_exponent p x) :: real) = 1 / 2 ^ (k + p - 1)"
    by (simp only: pk)
  have "round_half_even (x / (1 / 2 ^ (k + p - 1))) = m"
    using assms(3) by (intro rhe_near) simp
  then show ?thesis using x by (simp add: fl_def u)
qed

lemma double_epsilon: "fl 53 (1 / 10 ^ 10) = 7737125245533627 / 2 ^ 86"
  using fl_eval_small [of 34 "1 / 10 ^ 10" 53 7737125245533627] by simp



section \<open>Arrays and the store\<close>

lemma band_array_nth:
  "i < r_height rst \<Longrightarrow> j < r_width rst \<Longrightarrow> band_array rst b ! i ! j = r_sample rst b i j"
  by (simp add: band_array_def)

lemma arr_map_band_nth:
  "i < r_height rst \<Longrightarrow> j < r_width rst \<Longrightarrow>
   arr_map f (band_array rst b) ! i ! j = f (r_sample rst b i j)"
  by (simp add: arr_map_def band_array_def)

lemma arr_map_arr_map: "arr_map f (arr_map g a) = arr_map (\<lambda>x. f (g x)) a"
  by (simp add: arr_map_def comp_def)

lemma arr_map2_band_nth:
  "i < r_height rst \<Longrightarrow> j < r_width rst \<Longrightarrow>
   arr_map2 g (arr_map f1 (band_array rst b1)) (arr_map f2 (band_array rst b2)) ! i ! j
     = g (f1 (r_sample rst b1 i j)) (f2 (r_sample rst b2 i j))"
  by (simp add: arr_map2_def arr_map_def band_array_def)

lemma band_math_value:
  assumes "3 \<le> r_count rst"
  shows "band_math rst = Inr \<lparr> heap = [band_array rst 1, band_array rst 2, band_array rst 3,
            arr_map (to_db (r_dtype rst)) (band_array rst 1), arr_map (to_db (r_dtype rst)) (band_array rst 2)],
          vv_band_linear = 0, vh_band_linear = 1, datamask = 2, vv_band_db = 3, vh_band_db = 4,
          nodata_mask = arr_map is_nodata (band_array rst 3),
          vv_noise_mask = arr_map is_noise (arr_map (to_db (r_dtype rst)) (band_array rst 1)),
          vh_noise_mask = arr_map is_noise (arr_map (to_db (r_dtype rst)) (band_array rst 2)),
          vv_invalid_mask = arr_map2 (\<or>) (arr_map is_nodata (band_array rst 3))
                              (arr_map is_noise (arr_map (to_db (r_dtype rst)) (band_array rst 1))),
          vh_invalid_mask = arr_map2 (\<or>) (arr_map is_nodata (band_array rst 3))
                              (arr_map is_noise (arr_map (to_db (r_dtype rst)) (band_array rst 2))) \<rparr>"
  using assms by (simp add: band_math_def read_band_def np_alloc_def Let_def eval_nat_numeral)

lemma band_math_error: "r_count rst < 3 \<Longrightarrow> band_math rst = Inl IndexError"
  by (simp add: band_math_def read_band_def)

lemma arr_map2_nth:
  "i < length a \<Longrightarrow> i < length b \<Longrightarrow> j < length (a ! i) \<Longrightarrow> j < length (b ! i) \<Longrightarrow>
   arr_map2 f a b ! i ! j = f (a ! i ! j) (b ! i ! j)"
  by (simp add: arr_map2_def)

lemma band_array_shape:
  "length (band_array rst b) = r_height rst"
  "i < r_height rst \<Longrightarrow> length (band_array rst b ! i) = r_width rst"
  by (simp_all add: band_array_def)

lemma arr_map_shape:
  "length (arr_map f a) = length a"
  "i < length a \<Longrightarrow> length (arr_map f a ! i) = length (a ! i)"
  by (simp_all add: arr_map_def)

lemma arr_map2_shape:
  "length (arr_map2 f a b) = min (length a) (length b)"
  "i < length a \<Longrightarrow> i < length b \<Longrightarrow>
   length (arr_map2 f a b ! i) = min (length (a ! i)) (length (b ! i))"
  by (simp_all add: arr_map2_def)

lemma band_math_fields:
  assumes "3 \<le> r_count rst" "band_math rst = Inr a"
  shows "vv_band_db a = 3" "vh_band_db a = 4" "datamask a = 2"
    "heap a ! 2 = band_array rst 3"
    "heap a ! 3 = arr_map (to_db (r_dtype rst)) (band_array rst 1)"
    "heap a ! 4 = arr_map (to_db (r_dtype rst)) (band_array rst 2)"
    "vv_invalid_mask a = arr_map2 (\<or>) (arr_map is_nodata (band_array rst 3))
                              (arr_map is_noise (arr_map (to_db (r_dtype rst)) (band_array rst 1)))"
    "vh_invalid_mask a = arr_map2 (\<or>) (arr_map is_nodata (band_array rst 3))
                              (arr_map is_noise (arr_map (to_db (r_dtype rst)) (band_array rst 2)))"
  using assms(2) unfolding band_math_value [OF assms(1)] by auto

lemma prepare_display_value:
  assumes "3 \<le> r_count rst" and a: "band_math rst = Inr a"
  shows "prepare_display a =
     \<lparr> d_analysis = a\<lparr>heap := [band_array rst 1, band_array rst 2, band_array rst 3,
            arr_map (to_db (r_dtype rst)) (band_array rst 1), arr_map (to_db (r_dtype rst)) (band_array rst 2),
            arr_map2 (\<lambda>x b. if b then NaN else x) (arr_map (to_db (r_dtype rst)) (band_array rst 1)) (vv_invalid_mask a),
            arr_map2 (\<lambda>x b. if b then NaN else x) (arr_map (to_db (r_dtype rst)) (band_array rst 2)) (vh_invalid_mask a)]\<rparr>,
       vv_display = 5, vh_display = 6 \<rparr>"
  using a unfolding band_math_value [OF assms(1)]
  by (auto simp add: prepare_display_def np_copy_def np_alloc_def np_setmask_def Let_def eval_nat_numeral)


section \<open>The decibel conversion\<close>

lemma precision_pos: "1 \<le> precision dt"
  by (cases dt) simp_all

lemma epsilon_pos: "0 < epsilon dt"
  by (cases dt) (simp_all add: epsilon.simps fl_pos)

lemma to_db_Fin:
  assumes "0 \<le> x"
  shows "to_db dt (Fin x) =
    Fin (fl (precision dt) (10 * fl (precision dt) (log 10 (fl (precision dt) (x + epsilon dt)))))"
proof -
  have "0 < x + epsilon dt" using assms epsilon_pos [of dt] by linarith
  then have "0 < fl (precision dt) (x + epsilon dt)" by (rule fl_pos) (rule precision_pos)
  then show ?thesis by (simp add: to_db_def)
qed

lemma to_db_negative:
  assumes "x + epsilon dt < 0"
  shows "to_db dt (Fin x) = NaN"
proof -
  have "fl (precision dt) (x + epsilon dt) < 0" using assms by (rule fl_neg) (rule precision_pos)
  then show ?thesis by (simp add: to_db_def)
qed



lemma epsilon64_value: "epsilon Float64 = 7737125245533627 / 2 ^ 86"
  unfolding epsilon.simps by (rule double_epsilon)

lemma fl_nonneg: "0 \<le> x \<Longrightarrow> 1 \<le> p \<Longrightarrow> 0 \<le> fl p x"
  using fl_mono [of 0 x p] by (simp add: fl_zero)

lemma fl53_close:
  assumes "\<bar>x\<bar> \<le> B"
  shows "\<bar>fl 53 x - x\<bar> \<le> B / 2 ^ 53"
proof -
  have "\<bar>fl 53 x - x\<bar> \<le> \<bar>x\<bar> / 2 ^ 53" by (rule fl_error) simp
  also have "\<dots> \<le> B / 2 ^ 53" using assms by (simp add: divide_right_mono)
  finally show ?thesis .
qed

lemma ln10_gt_2: "2 < ln (10::real)"
proof -
  have "exp (2::real) = exp 1 * exp 1" by (simp add: exp_add [symmetric])
  also have "\<dots> \<le> 3 * 3" by (intro mult_mono exp_le) simp_all
  finally have "exp (2::real) < 10" by simp
  then have "ln (exp 2) < ln (10::real)" by (subst ln_less_cancel_iff) simp_all
  then show ?thesis by simp
qed

lemma log10_2_lower: "59 / 196 < log 10 (2::real)"
proof -
  have "log 10 ((2::real) ^ 196) = 196 * log 10 2"
    using log_nat_power [of "2::real" 10 196] by simp
  moreover have "log 10 ((10::real) ^ 59) < log 10 ((2::real) ^ 196)"
    by (subst log_less_cancel_iff) simp_all
  moreover have "log 10 ((10::real) ^ 59) = 59"
    using log_nat_power [of "10::real" 10 59] by simp
  ultimately show ?thesis by simp
qed

lemma log10_2_upper: "log 10 (2::real) < 28 / 93"
proof -
  have "log 10 ((2::real) ^ 93) = 93 * log 10 2"
    using log_nat_power [of "2::real" 10 93] by simp
  moreover have "log 10 ((2::real) ^ 93) < log 10 ((10::real) ^ 28)"
    by (subst log_less_cancel_iff) simp_all
  moreover have "log 10 ((10::real) ^ 28) = 28"
    using log_nat_power [of "10::real" 10 28] by simp
  ultimately show ?thesis by simp
qed

section \<open>Decibel values in 64-bit floats\<close>

lemma abs_diff_le_D:
  fixes a b c :: real
  assumes "\<bar>a - b\<bar> \<le> c"
  shows "b - c \<le> a" "a \<le> b + c"
  using assms by linarith+

lemma to_db_one: "\<exists>d. to_db Float64 (Fin 1) = Fin d \<and> 0 \<le> d \<and> d \<le> 1 / 10 ^ 9"
proof -
  let ?e = "epsilon Float64"
  have e: "?e = 7737125245533627 / 2 ^ 86" by (rule epsilon64_value)
  define s where "s = fl 53 (1 + ?e)"
  define L where "L = log 10 s"
  define t where "t = fl 53 L"
  define d where "d = fl 53 (10 * t)"
  have "\<lfloor>log 2 (1 + ?e)\<rfloor> = 0" unfolding e by (subst floor_log_eq_powr_iff) simp_all
  then have "2 powr of_int 0 \<le> s" using fl_lower [of "1 + ?e" 53] unfolding s_def e by simp
  then have s1: "1 \<le> s" by simp
  have "\<bar>s - (1 + ?e)\<bar> \<le> 2 / 2 ^ 53" unfolding s_def by (rule fl53_close) (simp add: e)
  then have "s \<le> (1 + ?e) + 2 / 2 ^ 53" by (rule abs_diff_le_D)
  then have s2: "s - 1 \<le> 102 / 10 ^ 12" by (simp add: e)
  have l0: "0 \<le> ln s" using s1 by simp
  have "ln s \<le> s - 1" using s1 by (intro ln_le_minus_one) simp
  with s2 have l1: "ln s \<le> 102 / 10 ^ 12" by simp
  have "ln s / ln 10 \<le> ln s / 2" using l0 ln10_gt_2 by (intro divide_left_mono) simp_all
  moreover have "L = ln s / ln 10" by (simp add: L_def log_def)
  ultimately have L1: "L \<le> 51 / 10 ^ 12" using l1 by linarith
  have L0: "0 \<le> L" using l0 ln10_gt_2 by (simp add: L_def log_def)
  have t0: "0 \<le> t" unfolding t_def using L0 by (intro fl_nonneg) simp_all
  have "\<bar>t - L\<bar> \<le> (51 / 10 ^ 12) / 2 ^ 53" unfolding t_def using L0 L1 by (intro fl53_close) simp
  then have "t \<le> L + (51 / 10 ^ 12) / 2 ^ 53" by (rule abs_diff_le_D)
  with L1 have t1: "t \<le> 52 / 10 ^ 12" by simp
  have d0: "0 \<le> d" unfolding d_def using t0 by (intro fl_nonneg) simp_all
  have "\<bar>d - 10 * t\<bar> \<le> (52 / 10 ^ 11) / 2 ^ 53" unfolding d_def using t0 t1
    by (intro fl53_close) simp
  then have "d \<le> 10 * t + (52 / 10 ^ 11) / 2 ^ 53" by (rule abs_diff_le_D)
  with t1 have d1: "d \<le> 1 / 10 ^ 9" by simp
  have "to_db Float64 (Fin 1) = Fin d"
    using to_db_Fin [of 1 Float64] by (simp add: d_def t_def L_def s_def)
  with d0 d1 show ?thesis by blast
qed

lemma to_db_double_epsilon:
  "\<exists>d. to_db Float64 (Fin (epsilon Float64)) = Fin d \<and> - 97 < d \<and> d < - 9698 / 100"
proof -
  let ?e = "epsilon Float64"
  have e: "?e = 7737125245533627 / 2 ^ 86" by (rule epsilon64_value)
  define s where "s = fl 53 (?e + ?e)"
  define r where "r = s / (2 / 10 ^ 10)"
  define L where "L = log 10 s"
  define t where "t = fl 53 L"
  define d where "d = fl 53 (10 * t)"
  have "\<bar>s - (?e + ?e)\<bar> \<le> (3 / 10 ^ 10) / 2 ^ 53" unfolding s_def
    by (rule fl53_close) (simp add: e)
  then have "(?e + ?e) - (3 / 10 ^ 10) / 2 ^ 53 \<le> s" "s \<le> (?e + ?e) + (3 / 10 ^ 10) / 2 ^ 53"
    by (rule abs_diff_le_D)+
  then have sb: "(2 / 10 ^ 10) * (1 - 1 / 10 ^ 6) \<le> s" "s \<le> (2 / 10 ^ 10) * (1 + 1 / 10 ^ 6)"
    by (simp_all add: e)
  then have rb: "1 - 1 / 10 ^ 6 \<le> r" "r \<le> 1 + 1 / 10 ^ 6"
    by (simp_all add: r_def field_simps)
  then have rpos: "0 < r" by simp
  have sr: "s = (2 / 10 ^ 10) * r" by (simp add: r_def)
  have "log 10 (2 / 10 ^ 10) = log 10 2 - log 10 ((10::real) ^ 10)"
    by (rule log_divide_pos) simp_all
  also have "log 10 ((10::real) ^ 10) = 10" using log_nat_power [of "10::real" 10 10] by simp
  finally have lc: "log 10 (2 / 10 ^ 10) = log 10 2 - 10" .
  have "L = log 10 (2 / 10 ^ 10) + log 10 r"
    unfolding L_def sr using rpos by (intro log_mult_pos) simp_all
  then have Lr: "L = log 10 2 - 10 + log 10 r" by (simp only: lc)
  have u1: "ln r \<le> 1 / 10 ^ 6" using ln_le_minus_one [OF rpos] rb(2) by simp
  have "ln (1 / r) \<le> 1 / r - 1" using rpos by (intro ln_le_minus_one) simp
  moreover have "ln (1 / r) = - ln r" using rpos by (simp add: ln_div)
  moreover have "1 / r \<le> 1 / (1 - 1 / 10 ^ 6)" using rb(1) by (intro divide_left_mono) simp_all
  ultimately have u2: "- (2 / 10 ^ 6) \<le> ln r" by simp
  have l10: "1 \<le> ln (10::real)" using ln10_gt_2 by simp
  have "\<bar>ln r\<bar> / ln 10 \<le> \<bar>ln r\<bar> / 1"
    using l10 by (intro divide_left_mono) simp_all
  moreover have "\<bar>log 10 r\<bar> = \<bar>ln r\<bar> / ln 10" using l10 by (simp add: log_def)
  moreover have "\<bar>ln r\<bar> \<le> 2 / 10 ^ 6" using u1 u2 by linarith
  ultimately have "\<bar>log 10 r - 0\<bar> \<le> 2 / 10 ^ 6" by linarith
  then have "0 - 2 / 10 ^ 6 \<le> log 10 r" "log 10 r \<le> 0 + 2 / 10 ^ 6" by (rule abs_diff_le_D)+
  with Lr log10_2_lower log10_2_upper
  have Lb: "- 9699 / 1000 < L" "L < - 96989 / 10000" by simp_all
  then have "\<bar>t - L\<bar> \<le> 10 / 2 ^ 53" unfolding t_def by (intro fl53_close) simp
  then have "L - 10 / 2 ^ 53 \<le> t" "t \<le> L + 10 / 2 ^ 53" by (rule abs_diff_le_D)+
  with Lb have tb: "- 96991 / 10000 < t" "t < - 96988 / 10000" by simp_all
  then have "\<bar>d - 10 * t\<bar> \<le> 100 / 2 ^ 53" unfolding d_def by (intro fl53_close) simp
  then have "10 * t - 100 / 2 ^ 53 \<le> d" "d \<le> 10 * t + 100 / 2 ^ 53" by (rule abs_diff_le_D)+
  with tb have db: "- 97 < d" "d < - 9698 / 100" by simp_all
  have "to_db Float64 (Fin ?e) = Fin d"
    using to_db_Fin [of ?e Float64] epsilon_pos [of Float64]
    by (simp add: d_def t_def L_def s_def)
  with db show ?thesis by blast
qed




section \<open>The end-to-end scenario\<close>

lemma scenario_eq: "band_math scenario_raster = Inr scenario"
  using band_math_value [of scenario_raster] by (simp add: scenario_def scenario_raster_def)

lemma scenario_count: "3 \<le> r_count scenario_raster"
  by (simp add: scenario_raster_def)

lemmas scenario_fields = band_math_fields [OF scenario_count scenario_eq]

lemma scenario_shape: "r_height scenario_raster = 2" "r_width scenario_raster = 2"
  "r_dtype scenario_raster = Float64"
  by (simp_all add: scenario_raster_def)

lemma scenario_vv_db:
  assumes "i < 2" "j < 2"
  shows "pixel scenario (vv_band_db scenario) i j = to_db Float64 (Fin 1)"
proof -
  have "r_sample scenario_raster 1 i j = Fin 1"
    using assms by (auto simp add: scenario_raster_def less_2_cases_iff)
  then show ?thesis using assms
    by (simp add: pixel_def scenario_fields arr_map_band_nth scenario_shape)
qed

lemma scenario_vh_db:
  assumes "i < 2" "j < 2"
  shows "pixel scenario (vh_band_db scenario) i j = to_db Float64 (r_sample scenario_raster 2 i j)"
  using assms by (simp add: pixel_def scenario_fields arr_map_band_nth scenario_shape)

lemma scenario_vh_sample: "r_sample scenario_raster 2 0 0 = Fin (epsilon Float64)"
  by (simp add: scenario_raster_def epsilon.simps)

lemma to_db_minus_one: "to_db Float64 (Fin (- 1)) = NaN"
  by (rule to_db_negative) (simp add: epsilon64_value)

text \<open>The double \<open>-1e-10\<close> cancels the constant exactly: the logarithm is taken of zero.\<close>

lemma to_db_minus_epsilon: "to_db Float64 (Fin (- epsilon Float64)) = NInf"
  by (simp add: to_db_def fl_zero)

lemma approx_one: "approx (to_db Float64 (Fin 1)) 0 (1 / 10 ^ 9)"
  using to_db_one by (auto simp add: approx_def)

lemma not_noise_one: "\<not> is_noise (to_db Float64 (Fin 1))"
  using to_db_one by (auto simp add: is_noise_def)

lemma scenario_invalid:
  "vv_invalid_mask scenario ! 1 ! 0" "vh_invalid_mask scenario ! 1 ! 0"
proof -
  have "r_sample scenario_raster 3 1 0 = Fin 0" by (simp add: scenario_raster_def)
  then show "vv_invalid_mask scenario ! 1 ! 0" "vh_invalid_mask scenario ! 1 ! 0"
    by (simp_all add: scenario_fields arr_map_arr_map arr_map2_band_nth scenario_shape is_nodata_def)
qed

section \<open>Invalid-pixel masks\<close>

text \<open>
  C1. On a raster with at least three bands the band math returns; the data mask it holds
  is band 3 of the raster and its dB arrays are the decibel conversions of bands 1 and 2;
  and for every pixel: when the data-mask sample is 0 the pixel is flagged in both the VV
  and the VH invalid mask, whatever its dB values are; when the data-mask sample is not 0
  the pixel is flagged in a polarization exactly when that polarization's dB value is
  strictly less than -22.
\<close>

theorem invalid_mask_predicate:
  assumes "3 \<le> r_count rst" "i < r_height rst" "j < r_width rst"
  shows "\<exists>a. band_math rst = Inr a \<and>
    pixel a (datamask a) i j = r_sample rst 3 i j \<and>
    pixel a (vv_band_db a) i j = to_db (r_dtype rst) (r_sample rst 1 i j) \<and>
    pixel a (vh_band_db a) i j = to_db (r_dtype rst) (r_sample rst 2 i j) \<and>
    (if r_sample rst 3 i j = Fin 0
     then vv_invalid_mask a ! i ! j \<and> vh_invalid_mask a ! i ! j
     else (vv_invalid_mask a ! i ! j
             = np_less (to_db (r_dtype rst) (r_sample rst 1 i j)) (Fin (- 22))) \<and>
          (vh_invalid_mask a ! i ! j
             = np_less (to_db (r_dtype rst) (r_sample rst 2 i j)) (Fin (- 22)))) \<and>
    (if pixel a (datamask a) i j = Fin 0
     then vv_invalid_mask a ! i ! j \<and> vh_invalid_mask a ! i ! j
     else (vv_invalid_mask a ! i ! j = np_less (pixel a (vv_band_db a) i j) (Fin (- 22))) \<and>
          (vh_invalid_mask a ! i ! j = np_less (pixel a (vh_band_db a) i j) (Fin (- 22))))"
proof -
  have nodata: "is_nodata m = (m = Fin 0)" for m
    by (cases m) (simp_all add: is_nodata_def)
  show ?thesis
    unfolding band_math_value [OF assms(1)] using assms(2,3)
    by (simp add: pixel_def arr_map_arr_map arr_map_band_nth arr_map2_band_nth band_array_nth
          nodata is_noise_def)
qed

theorem invalid_mask_predicate_witness:
  "3 \<le> r_count scenario_raster \<and> 1 < r_height scenario_raster \<and> 0 < r_width scenario_raster \<and>
   \<not> isl (band_math scenario_raster) \<and>
   r_sample scenario_raster 3 1 0 = Fin 0 \<and>
   pixel (projr (band_math scenario_raster)) (datamask (projr (band_math scenario_raster))) 1 0
     = Fin 0 \<and>
   vv_invalid_mask (projr (band_math scenario_raster)) ! 1 ! 0 \<and>
   vh_invalid_mask (projr (band_math scenario_raster)) ! 1 ! 0"
proof -
  have h: "3 \<le> r_count scenario_raster" "1 < r_height scenario_raster" "0 < r_width scenario_raster"
    by (simp_all add: scenario_raster_def)
  have m: "r_sample scenario_raster 3 1 0 = Fin 0" by (simp add: scenario_raster_def)
  from invalid_mask_predicate [OF h] m h show ?thesis by auto
qed

section \<open>Monotonicity of the decibel conversion\<close>




text \<open>
  C3, as the spec states it: in the scenario the VH dB value at row 0, column 0 would be
  about -100. The sample there is \<open>1e-10\<close>, to which the conversion adds \<open>1e-10\<close>
  again, so the value is \<open>10 * log10 2e-10\<close>, more than 3 dB above -100.
\<close>

theorem scenario_vh_not_minus_100:
  "\<not> approx (pixel scenario (vh_band_db scenario) 0 0) (- 100) 3"
proof -
  have "pixel scenario (vh_band_db scenario) 0 0 = to_db Float64 (Fin (epsilon Float64))"
    by (simp add: scenario_vh_db scenario_vh_sample)
  with to_db_double_epsilon show ?thesis by (auto simp add: approx_def)
qed

text \<open>
  C3, amended. In the scenario the band math returns; the VV dB value is within \<open>1e-9\<close>
  of 0 at each of the four pixels; the VH dB value at row 0, column 0 is within 0.01 of
  -96.99; and the pixel at row 1, column 0, whose data-mask sample is 0, is flagged in both
  invalid masks although neither of its dB values is below -22.
\<close>

theorem scenario_band_math:
  "\<not> isl (band_math scenario_raster) \<and>
   approx (pixel scenario (vv_band_db scenario) 0 0) 0 (1 / 10 ^ 9) \<and>
   approx (pixel scenario (vv_band_db scenario) 0 1) 0 (1 / 10 ^ 9) \<and>
   approx (pixel scenario (vv_band_db scenario) 1 0) 0 (1 / 10 ^ 9) \<and>
   approx (pixel scenario (vv_band_db scenario) 1 1) 0 (1 / 10 ^ 9) \<and>
   approx (pixel scenario (vh_band_db scenario) 0 0) (- 9699 / 100) (1 / 100) \<and>
   pixel scenario (datamask scenario) 1 0 = Fin 0 \<and>
   \<not> is_noise (pixel scenario (vv_band_db scenario) 1 0) \<and>
   \<not> is_noise (pixel scenario (vh_band_db scenario) 1 0) \<and>
   vv_invalid_mask scenario ! 1 ! 0 \<and> vh_invalid_mask scenario ! 1 ! 0"
proof -
  have vh00: "pixel scenario (vh_band_db scenario) 0 0 = to_db Float64 (Fin (epsilon Float64))"
    by (simp add: scenario_vh_db scenario_vh_sample)
  obtain d where d: "to_db Float64 (Fin (epsilon Float64)) = Fin d" "- 97 < d" "d < - 9698 / 100"
    using to_db_double_epsilon by blast
  have "\<bar>d - (- 9699 / 100)\<bar> \<le> 1 / 100" using d(2,3) unfolding abs_le_iff by auto
  then have c6: "approx (to_db Float64 (Fin (epsilon Float64))) (- 9699 / 100) (1 / 100)"
    by (simp add: approx_def d(1))
  have "r_sample scenario_raster 2 1 0 = Fin 1" by (simp add: scenario_raster_def)
  then have vh10: "pixel scenario (vh_band_db scenario) 1 0 = to_db Float64 (Fin 1)"
    by (simp add: scenario_vh_db)
  have dm: "pixel scenario (datamask scenario) 1 0 = Fin 0"
    by (simp add: pixel_def scenario_fields band_array_nth scenario_shape)
       (simp add: scenario_raster_def)
  have c1: "\<not> isl (band_math scenario_raster)" by (simp add: scenario_eq)
  have vv: "approx (pixel scenario (vv_band_db scenario) i j) 0 (1 / 10 ^ 9)"
    if "i < 2" "j < 2" for i j
    using that by (simp only: scenario_vv_db approx_one)
  have nvv: "\<not> is_noise (pixel scenario (vv_band_db scenario) 1 0)"
  proof -
    have "pixel scenario (vv_band_db scenario) 1 0 = to_db Float64 (Fin 1)"
      by (rule scenario_vv_db) simp_all
    then show ?thesis by (simp only: not_noise_one not_False_eq_True)
  qed
  have nvh: "\<not> is_noise (pixel scenario (vh_band_db scenario) 1 0)"
    by (simp only: vh10 not_noise_one not_False_eq_True)
  have vh: "approx (pixel scenario (vh_band_db scenario) 0 0) (- 9699 / 100) (1 / 100)"
    by (simp only: vh00 c6)
  show ?thesis
    by (intro conjI c1 vv nvv nvh vh dm scenario_invalid) simp_all
qed

section \<open>Display arrays\<close>

text \<open>
  C9, as stated: a display pixel would be NaN exactly at the flagged positions. On the
  one-pixel raster with VV sample -1 and data mask 1 the dB value is itself NaN (the
  logarithm of a negative number), it is not below -22, the pixel is not flagged, and the
  display pixel is NaN.
\<close>

theorem display_nan_where_not_flagged:
  "isnan (pixel (d_analysis (prepare_display (projr (band_math negative_raster))))
            (vv_display (prepare_display (projr (band_math negative_raster)))) 0 0) \<and>
   \<not> vv_invalid_mask (projr (band_math negative_raster)) ! 0 ! 0"
proof -
  have h: "3 \<le> r_count negative_raster" "0 < r_height negative_raster" "0 < r_width negative_raster"
    by (simp_all add: negative_raster_def)
  obtain a where a: "band_math negative_raster = Inr a" using band_math_value [OF h(1)] by blast
  note f = band_math_fields [OF h(1) a]
  have px: "r_sample negative_raster 1 0 0 = Fin (- 1)" "r_sample negative_raster 3 0 0 = Fin 1"
    by (simp_all add: negative_raster_def)
  have dt: "r_dtype negative_raster = Float64" by (simp add: negative_raster_def)
  have db: "pixel a (vv_band_db a) 0 0 = NaN"
    using h(2,3) px dt by (simp add: pixel_def f arr_map_band_nth to_db_minus_one)
  have nf: "\<not> vv_invalid_mask a ! 0 ! 0"
    using h(2,3) px dt
    by (simp add: f arr_map_arr_map arr_map2_band_nth is_nodata_def is_noise_def to_db_minus_one)
  have shp: "0 < length (band_array negative_raster b)" "0 < length (band_array negative_raster b ! 0)" for b
    using h(2,3) by (simp_all add: band_array_shape)
  have "pixel (d_analysis (prepare_display a)) (vv_display (prepare_display a)) 0 0 =
      (if vv_invalid_mask a ! 0 ! 0 then NaN else pixel a (vv_band_db a) 0 0)"
    unfolding prepare_display_value [OF h(1) a] using shp
    by (simp add: pixel_def f arr_map2_nth arr_map_shape arr_map2_shape)
  with db nf a show ?thesis by simp
qed

text \<open>
  C9, amended. The NaN substitution works on copies: after the display arrays are built,
  the arrays \<open>vv_band_db\<close> and \<open>vh_band_db\<close> in the store are what the dB conversion
  produced, and in each display array a pixel flagged by the corresponding invalid mask is
  NaN while every other pixel has the dB array's value (which is NaN where the dB value
  itself is).
\<close>

theorem display_arrays:
  assumes "3 \<le> r_count rst" "i < r_height rst" "j < r_width rst"
  shows "\<exists>a. band_math rst = Inr a \<and>
    heap a ! vv_band_db a = arr_map (to_db (r_dtype rst)) (band_array rst 1) \<and>
    heap a ! vh_band_db a = arr_map (to_db (r_dtype rst)) (band_array rst 2) \<and>
    heap (d_analysis (prepare_display a)) ! vv_band_db a = heap a ! vv_band_db a \<and>
    heap (d_analysis (prepare_display a)) ! vh_band_db a = heap a ! vh_band_db a \<and>
    pixel (d_analysis (prepare_display a)) (vv_display (prepare_display a)) i j =
      (if vv_invalid_mask a ! i ! j then NaN else pixel a (vv_band_db a) i j) \<and>
    pixel (d_analysis (prepare_display a)) (vh_display (prepare_display a)) i j =
      (if vh_invalid_mask a ! i ! j then NaN else pixel a (vh_band_db a) i j)"
proof -
  obtain a where a: "band_math rst = Inr a" using band_math_value [OF assms(1)] by blast
  note f = band_math_fields [OF assms(1) a]
  note d = prepare_display_value [OF assms(1) a]
  have shp: "i < length (band_array rst b)" "j < length (band_array rst b ! i)" for b
    using assms(2,3) by (simp_all add: band_array_shape)
  have vv: "pixel (d_analysis (prepare_display a)) (vv_display (prepare_display a)) i j =
      (if vv_invalid_mask a ! i ! j then NaN else pixel a (vv_band_db a) i j)"
    unfolding d using shp
    by (simp add: pixel_def f arr_map2_nth arr_map_shape arr_map2_shape)
  have vh: "pixel (d_analysis (prepare_display a)) (vh_display (prepare_display a)) i j =
      (if vh_invalid_mask a ! i ! j then NaN else pixel a (vh_band_db a) i j)"
    unfolding d using shp
    by (simp add: pixel_def f arr_map2_nth arr_map_shape arr_map2_shape)
  have keep: "heap (d_analysis (prepare_display a)) ! vv_band_db a = heap a ! vv_band_db a"
    "heap (d_analysis (prepare_display a)) ! vh_band_db a = heap a ! vh_band_db a"
    unfolding d by (simp_all add: f)
  from a f(5,6) keep vv vh show ?thesis by (simp add: f(1,2))
qed

theorem display_arrays_witness:
  "3 \<le> r_count scenario_raster \<and> 1 < r_height scenario_raster \<and> 0 < r_width scenario_raster \<and>
   heap (d_analysis (prepare_display scenario)) ! vv_band_db scenario
     = heap scenario ! vv_band_db scenario \<and>
   isnan (pixel (d_analysis (prepare_display scenario)) (vv_display (prepare_display scenario)) 1 0)"
proof -
  have h: "3 \<le> r_count scenario_raster" "1 < r_height scenario_raster" "0 < r_width scenario_raster"
    by (simp_all add: scenario_raster_def)
  from display_arrays [OF h] scenario_eq scenario_invalid(1) h show ?thesis by auto
qed

section \<open>Control flow of the pipeline\<close>

lemma say_fields:
  "printed (say l s) = printed s @ [l]"
  "token (say l s) = token s"
  "posts (say l s) = posts s"
  "image_bytes (say l s) = image_bytes s"
  "src (say l s) = src s"
  "fig (say l s) = fig s"
  by (simp_all add: say_def)

lemma and_then_simps:
  "and_then (s, None) f = f s"
  "and_then (s, Some h) f = (s, Some h)"
  by (simp_all add: and_then_def)

lemma and_then_running: "snd r = None \<Longrightarrow> and_then r f = f (fst r)"
  by (cases r) (simp add: and_then_def)

lemma and_then_cases:
  "and_then r f = r \<or> and_then r f = f (fst r)"
  by (cases r; cases "snd r") (auto simp add: and_then_def)

text \<open>What each stage leaves alone.\<close>

lemma stage3_frame:
  "\<exists>ls. printed (fst (stage3 env s)) = printed s @ ls"
  "token (fst (stage3 env s)) = token s"
  "posts (fst (stage3 env s)) = posts s"
  "src (fst (stage3 env s)) = src s"
  "fig (fst (stage3 env s)) = fig s"
  by (simp_all add: stage3_def say_fields split: option.splits)

lemma stage4_frame:
  "\<exists>ls. printed (fst (stage4 env s)) = printed s @ ls"
  "token (fst (stage4 env s)) = token s"
  "posts (fst (stage4 env s)) = posts s + 1"
  "src (fst (stage4 env s)) = src s"
  "fig (fst (stage4 env s)) = fig s"
  by (simp_all add: stage4_def say_fields Let_def split: sum.splits)

lemma visualize_frame:
  "printed (fst (visualize env r s)) = printed s"
  "token (fst (visualize env r s)) = token s"
  "posts (fst (visualize env r s)) = posts s"
  "image_bytes (fst (visualize env r s)) = image_bytes s"
  by (simp_all add: visualize_def split: sum.splits)

lemma stage5_frame:
  "\<exists>ls. printed (fst (stage5 env s)) = printed s @ ls"
  "token (fst (stage5 env s)) = token s"
  "posts (fst (stage5 env s)) = posts s"
  "image_bytes (fst (stage5 env s)) = image_bytes s"
  by (simp_all add: stage5_def say_fields visualize_frame split: sum.splits)

lemma stage5_exit:
  "py_not (image_bytes s) \<Longrightarrow>
   stage5 env s = (say ''No image data available for visualization.'' s, Some Exit)"
  by (simp add: stage5_def)


lemma and_then_printed:
  assumes "\<And>s. \<exists>ls. printed (fst (f s)) = printed s @ ls"
  shows "\<exists>ls. printed (fst (and_then r f)) = printed (fst r) @ ls"
  using and_then_cases [of r f] assms [of "fst r"] by auto

lemma and_then_token:
  assumes "\<And>s. token (fst (f s)) = token s"
  shows "token (fst (and_then r f)) = token (fst r)"
  using and_then_cases [of r f] assms [of "fst r"] by auto

lemma stage1_running: "snd (stage1 env s) = None"
  by (simp add: stage1_def Let_def)

lemma stage2_running: "snd (stage2 env s) = None"
  by (simp add: stage2_def split: sum.splits)

lemma stage1_printed:
  "py_not (CLIENT_ID env) \<or> py_not (CLIENT_SECRET env) \<Longrightarrow>
   printed (fst (stage1 env initial)) =
     [''FATAL: CLIENT_ID or CLIENT_SECRET not found.'',
      ''Please ensure you have a .env file with your credentials.'',
      ''Configuration loaded and ready.'']"
  by (simp add: stage1_def Let_def say_fields initial_def)

lemma stage1_token: "token (fst (stage1 env s)) = token s"
  by (simp add: stage1_def Let_def say_fields)

lemma stage1_posts: "posts (fst (stage1 env s)) = posts s"
  by (simp add: stage1_def Let_def say_fields)

lemma stage2_printed:
  "printed (fst (stage2 env s)) = printed s @
     [case fetch_token_result env of
        Inr tok \<Rightarrow> ''Authentication successful. Token obtained.''
      | Inl e \<Rightarrow> ''Authentication failed: '' @ e]"
  by (simp add: stage2_def say_fields split: sum.splits)

lemma stage2_posts: "posts (fst (stage2 env s)) = posts s"
  by (simp add: stage2_def say_fields split: sum.splits)

lemma stage2_failed:
  "fetch_token_result env = Inl e \<Longrightarrow>
   stage2 env s = (say (''Authentication failed: '' @ e) s, None)"
  by (simp add: stage2_def)

text \<open>The first two stages never end the program.\<close>

lemma run_from_stage3:
  "run env =
     and_then (and_then (stage3 env (fst (stage2 env (fst (stage1 env initial))))) (stage4 env))
       (stage5 env)"
  by (simp add: run_def and_then_running stage1_running stage2_running)

lemma run_printed_prefix:
  "\<exists>ls. printed (fst (run env)) = printed (fst (stage2 env (fst (stage1 env initial)))) @ ls"
proof -
  let ?s2 = "fst (stage2 env (fst (stage1 env initial)))"
  let ?r4 = "and_then (stage3 env ?s2) (stage4 env)"
  obtain l3 where l3: "printed (fst (stage3 env ?s2)) = printed ?s2 @ l3"
    using stage3_frame(1) by blast
  obtain l4 where l4: "printed (fst ?r4) = printed (fst (stage3 env ?s2)) @ l4"
    using and_then_printed [of "stage4 env", OF stage4_frame(1)] by blast
  obtain l5 where l5: "printed (fst (and_then ?r4 (stage5 env))) = printed (fst ?r4) @ l5"
    using and_then_printed [of "stage5 env", OF stage5_frame(1)] by blast
  from l3 l4 l5 show ?thesis by (simp add: run_from_stage3)
qed

lemma run_token: "token (fst (run env)) = token (fst (stage2 env (fst (stage1 env initial))))"
  by (simp add: run_from_stage3 and_then_token stage3_frame stage4_frame stage5_frame)

text \<open>With the evalscript file readable and a response to the POST.\<close>

lemma stage3_readable:
  "evalscript_js env = Some script \<Longrightarrow> snd (stage3 env s) = None \<and>
     ''Request payload defined.'' \<in> set (printed (fst (stage3 env s)))"
  by (simp add: stage3_def say_fields)

lemma stage3_unreadable:
  "evalscript_js env = None \<Longrightarrow> stage3 env s = (s, Some (Uncaught FileNotFoundError))"
  by (simp add: stage3_def)

lemma run_from_stage4:
  "evalscript_js env = Some script \<Longrightarrow>
   run env = and_then (stage4 env (fst (stage3 env (fst (stage2 env (fst (stage1 env initial)))))))
               (stage5 env)"
  by (simp add: run_from_stage3 and_then_running stage3_readable)

lemma run_posts:
  "evalscript_js env = Some script \<Longrightarrow> posts (fst (run env)) = 1"
proof -
  assume e: "evalscript_js env = Some script"
  let ?s3 = "fst (stage3 env (fst (stage2 env (fst (stage1 env initial)))))"
  have "posts ?s3 = 0"
    by (simp add: stage3_frame stage2_posts stage1_posts) (simp add: initial_def)
  then have p4: "posts (fst (stage4 env ?s3)) = 1" by (simp add: stage4_frame)
  show ?thesis
    using and_then_cases [of "stage4 env ?s3" "stage5 env"] p4
    by (auto simp add: run_from_stage4 [OF e] stage5_frame)
qed


lemma early_frame:
  "src (fst (stage1 env s)) = src s" "fig (fst (stage1 env s)) = fig s"
  "src (fst (stage2 env s)) = src s" "fig (fst (stage2 env s)) = fig s"
  by (simp_all add: stage1_def stage2_def Let_def say_fields split: sum.splits)

lemma stage4_response:
  assumes "post_result env = Inr r"
  shows "snd (stage4 env s) = None"
    "status_code r = 200 \<Longrightarrow> image_bytes (fst (stage4 env s)) = Some (content r)"
    "status_code r = 200 \<Longrightarrow> last (printed (fst (stage4 env s))) =
       ''Successfully received image data ('' @ str_nat (length (content r)) @ '' bytes).''"
    "status_code r \<noteq> 200 \<Longrightarrow> image_bytes (fst (stage4 env s)) = None"
    "status_code r \<noteq> 200 \<Longrightarrow>
       last (printed (fst (stage4 env s))) = ''Request failed: '' @ str_int (status_code r)"
  using assms by (simp_all add: stage4_def Let_def say_fields)

lemma before_fetch:
  "src (fst (stage3 env (fst (stage2 env (fst (stage1 env initial)))))) = None"
  "fig (fst (stage3 env (fst (stage2 env (fst (stage1 env initial)))))) = None"
  by (simp_all add: stage3_frame early_frame) (simp_all add: initial_def)

lemma run_not_200:
  assumes e: "evalscript_js env = Some script" and p: "post_result env = Inr r"
    and n: "status_code r \<noteq> 200"
  shows "run env =
    (say ''No image data available for visualization.''
       (fst (stage4 env (fst (stage3 env (fst (stage2 env (fst (stage1 env initial)))))))),
     Some Exit)"
  by (simp add: run_from_stage4 [OF e] and_then_running stage4_response [OF p] n
      stage5_exit py_not_def)

text \<open>
  C5. When CLIENT_ID or CLIENT_SECRET is absent or empty, the first stage does not end the
  program, and the run prints the two lines of the fatal report, then the line
  "Configuration loaded and ready.", then the line of the token exchange of the second
  stage: execution has gone on into the authentication stage.
\<close>

theorem missing_credentials_continue:
  assumes "py_not (CLIENT_ID env) \<or> py_not (CLIENT_SECRET env)"
  shows "snd (stage1 env initial) = None \<and>
    take 4 (printed (fst (run env))) =
      [''FATAL: CLIENT_ID or CLIENT_SECRET not found.'',
       ''Please ensure you have a .env file with your credentials.'',
       ''Configuration loaded and ready.'',
       (case fetch_token_result env of
          Inr tok \<Rightarrow> ''Authentication successful. Token obtained.''
        | Inl e \<Rightarrow> ''Authentication failed: '' @ e)]"
proof -
  obtain ls where "printed (fst (run env)) =
      printed (fst (stage2 env (fst (stage1 env initial)))) @ ls"
    using run_printed_prefix by blast
  then have "take 4 (printed (fst (run env))) =
      printed (fst (stage2 env (fst (stage1 env initial))))"
    by (simp add: stage2_printed stage1_printed [OF assms])
  then show ?thesis
    by (simp add: stage2_printed stage1_printed [OF assms] stage1_running)
qed

theorem missing_credentials_continue_witness:
  "py_not (CLIENT_ID no_credentials_env) \<and>
   take 4 (printed (fst (run no_credentials_env))) =
      [''FATAL: CLIENT_ID or CLIENT_SECRET not found.'',
       ''Please ensure you have a .env file with your credentials.'',
       ''Configuration loaded and ready.'',
       ''Authentication failed: (invalid_client) Invalid client credentials'']"
proof -
  have h: "py_not (CLIENT_ID no_credentials_env) \<or> py_not (CLIENT_SECRET no_credentials_env)"
    by (simp add: no_credentials_env_def py_not_def)
  have "fetch_token_result no_credentials_env = Inl ''(invalid_client) Invalid client credentials''"
    by (simp add: no_credentials_env_def)
  with missing_credentials_continue [OF h] show ?thesis
    by (simp add: no_credentials_env_def py_not_def)
qed

text \<open>
  C6. When the token exchange raises an exception with message \<open>e\<close>, the second stage
  does not end the program and sets no token; the run prints "Authentication failed: e",
  its token is unset at the end, and the third stage is entered: with a readable evalscript
  file the payload line is printed and the POST is sent, with an unreadable one the run
  ends there with FileNotFoundError.
\<close>

theorem token_failure_continues:
  assumes "fetch_token_result env = Inl e"
  shows "snd (stage2 env s) = None \<and> token (fst (stage2 env s)) = token s \<and>
    token (fst (run env)) = None \<and>
    ''Authentication failed: '' @ e \<in> set (printed (fst (run env))) \<and>
    (case evalscript_js env of
       None \<Rightarrow> snd (run env) = Some (Uncaught FileNotFoundError)
     | Some script \<Rightarrow> ''Request payload defined.'' \<in> set (printed (fst (run env))) \<and>
                     posts (fst (run env)) = 1)"
proof -
  let ?s1 = "fst (stage1 env initial)"
  let ?s2 = "fst (stage2 env ?s1)"
  have t: "token (fst (stage2 env s)) = token s" for s
    by (simp add: stage2_failed [OF assms] say_fields)
  have "token ?s2 = None" by (simp add: t stage1_token) (simp add: initial_def)
  then have c3: "token (fst (run env)) = None" by (simp add: run_token)
  have "''Authentication failed: '' @ e \<in> set (printed ?s2)"
    by (simp add: stage2_failed [OF assms] say_fields)
  then have c4: "''Authentication failed: '' @ e \<in> set (printed (fst (run env)))"
    using run_printed_prefix [of env] by auto
  have c5: "case evalscript_js env of
       None \<Rightarrow> snd (run env) = Some (Uncaught FileNotFoundError)
     | Some script \<Rightarrow> ''Request payload defined.'' \<in> set (printed (fst (run env))) \<and>
                     posts (fst (run env)) = 1"
  proof (cases "evalscript_js env")
    case None
    then show ?thesis
      by (simp add: run_from_stage3 stage3_unreadable and_then_simps)
  next
    case (Some script)
    let ?s3 = "fst (stage3 env ?s2)"
    obtain l4 where "printed (fst (stage4 env ?s3)) = printed ?s3 @ l4"
      using stage4_frame(1) by blast
    moreover obtain l5 where "printed (fst (and_then (stage4 env ?s3) (stage5 env))) =
        printed (fst (stage4 env ?s3)) @ l5"
      using and_then_printed [of "stage5 env", OF stage5_frame(1)] by blast
    ultimately have "''Request payload defined.'' \<in> set (printed (fst (run env)))"
      using stage3_readable [OF Some, of ?s2] by (simp add: run_from_stage4 [OF Some])
    with Some run_posts [OF Some] show ?thesis by simp
  qed
  from t c3 c4 c5 show ?thesis by (simp add: stage2_running)
qed

theorem token_failure_continues_witness:
  "fetch_token_result no_credentials_env = Inl ''(invalid_client) Invalid client credentials'' \<and>
   token (fst (run no_credentials_env)) = None \<and>
   ''Authentication failed: (invalid_client) Invalid client credentials''
      \<in> set (printed (fst (run no_credentials_env))) \<and>
   posts (fst (run no_credentials_env)) = 1"
proof -
  have h: "fetch_token_result no_credentials_env = Inl ''(invalid_client) Invalid client credentials''"
    by (simp add: no_credentials_env_def)
  have e: "evalscript_js no_credentials_env = Some ''//VERSION=3''"
    by (simp add: no_credentials_env_def)
  from token_failure_continues [OF h, of initial] h e show ?thesis by simp
qed

text \<open>
  C4. When the POST gets a response, the fetch stage raises nothing and exactly one POST
  has been sent at the end of the run; with status 200 the response body is the image; with
  any other status the image is unset, "Request failed: " with the status code is printed,
  no raster object and no figure exist, and the run ends by the exit of the fifth stage.
\<close>

theorem fetch_status:
  assumes "evalscript_js env = Some script" "post_result env = Inr r"
  shows "snd (stage4 env s) = None \<and> posts (fst (run env)) = 1 \<and>
    (if status_code r = 200
     then image_bytes (fst (run env)) = Some (content r)
     else image_bytes (fst (run env)) = None \<and>
          ''Request failed: '' @ str_int (status_code r) \<in> set (printed (fst (run env))) \<and>
          src (fst (run env)) = None \<and> fig (fst (run env)) = None \<and>
          snd (run env) = Some Exit)"
proof -
  let ?s3 = "fst (stage3 env (fst (stage2 env (fst (stage1 env initial)))))"
  let ?s4 = "fst (stage4 env ?s3)"
  note r4 = stage4_response [OF assms(2)]
  have run: "run env = stage5 env ?s4"
    by (simp add: run_from_stage4 [OF assms(1)] and_then_running r4(1))
  show ?thesis
  proof (cases "status_code r = 200")
    case True
    then show ?thesis
      by (simp add: r4(1) run_posts [OF assms(1)]) (simp add: run stage5_frame r4(2))
  next
    case False
    have ne: "printed ?s4 \<noteq> []" using stage4_frame(1) [of env ?s3] False
      by (simp add: stage4_def Let_def say_fields assms(2))
    have "''Request failed: '' @ str_int (status_code r) \<in> set (printed ?s4)"
      using last_in_set [OF ne] by (simp only: r4(5) [OF False])
    with False show ?thesis
      by (simp add: r4(1) run_posts [OF assms(1)])
         (simp add: run_not_200 [OF assms False] say_fields r4(4) stage4_frame before_fetch)
  qed
qed

theorem fetch_status_witness:
  "evalscript_js forbidden_env = Some ''//VERSION=3'' \<and>
   post_result forbidden_env = Inr \<lparr> status_code = 403, content = ''Forbidden'' \<rparr> \<and>
   posts (fst (run forbidden_env)) = 1 \<and>
   ''Request failed: 403'' \<in> set (printed (fst (run forbidden_env))) \<and>
   src (fst (run forbidden_env)) = None \<and>
   snd (run forbidden_env) = Some Exit"
proof -
  have h: "evalscript_js forbidden_env = Some ''//VERSION=3''"
    "post_result forbidden_env = Inr \<lparr> status_code = 403, content = ''Forbidden'' \<rparr>"
    by (simp_all add: forbidden_env_def no_credentials_env_def)
  have s: "str_int 403 = ''403''" by (simp add: str_int_def str_nat.simps digit_def)
  from fetch_status [OF h, of initial] h s show ?thesis by simp
qed

text \<open>
  C10. A response with status 200 and an empty body ends the run by the exit of the fifth
  stage, after the lines "Successfully received image data (0 bytes)." and "No image data
  available for visualization.", with no raster object and no figure; the fifth stage exits
  so whenever the stored image bytes are \<open>None\<close> or empty.
\<close>

theorem empty_body_halts:
  assumes "evalscript_js env = Some script" "post_result env = Inr r"
    "status_code r = 200" "content r = []"
  shows "snd (run env) = Some Exit \<and> src (fst (run env)) = None \<and> fig (fst (run env)) = None \<and>
    printed (fst (run env)) =
      printed (fst (stage4 env (fst (stage3 env (fst (stage2 env (fst (stage1 env initial))))))))
      @ [''No image data available for visualization.''] \<and>
    last (printed (fst (stage4 env (fst (stage3 env (fst (stage2 env (fst (stage1 env initial))))))))) =
      ''Successfully received image data (0 bytes).'' \<and>
    (py_not (image_bytes s) \<longrightarrow>
       stage5 env s = (say ''No image data available for visualization.'' s, Some Exit))"
proof -
  let ?s3 = "fst (stage3 env (fst (stage2 env (fst (stage1 env initial)))))"
  let ?s4 = "fst (stage4 env ?s3)"
  note r4 = stage4_response [OF assms(2)]
  have "image_bytes ?s4 = Some []" using r4(2) [OF assms(3)] assms(4) by simp
  then have "py_not (image_bytes ?s4)" by (simp add: py_not_def)
  then have run: "run env = (say ''No image data available for visualization.'' ?s4, Some Exit)"
    by (simp add: run_from_stage4 [OF assms(1)] and_then_running r4(1) stage5_exit)
  have z: "str_nat 0 = ''0''" by (simp add: str_nat.simps digit_def)
  have "last (printed ?s4) = ''Successfully received image data (0 bytes).''"
    using r4(3) [OF assms(3), of ?s3] by (simp add: assms(4) z)
  then show ?thesis
    by (simp add: run say_fields stage4_frame before_fetch stage5_exit)
qed

theorem empty_body_halts_witness:
  "evalscript_js empty_body_env = Some ''//VERSION=3'' \<and>
   post_result empty_body_env = Inr \<lparr> status_code = 200, content = [] \<rparr> \<and>
   py_not (image_bytes initial) \<and>
   snd (run empty_body_env) = Some Exit \<and> src (fst (run empty_body_env)) = None \<and>
   snd (stage5 empty_body_env initial) = Some Exit"
proof -
  have h: "evalscript_js empty_body_env = Some ''//VERSION=3''"
    "post_result empty_body_env = Inr \<lparr> status_code = 200, content = [] \<rparr>"
    by (simp_all add: empty_body_env_def forbidden_env_def no_credentials_env_def)
  have r: "status_code \<lparr> status_code = 200, content = [] \<rparr> = 200"
    "content \<lparr> status_code = 200, content = [] \<rparr> = []"
    by simp_all
  have n: "py_not (image_bytes initial)" by (simp add: initial_def py_not_def)
  from empty_body_halts [OF h r, where s = initial] h n show ?thesis by simp
qed

section \<open>The overlay path\<close>

lemma compound_path_first: "compound_path xlim ylim (g # rest) = compound_path xlim ylim [g]"
  by (simp add: compound_path_def iloc0_def)

lemma overlay_patches_first: "overlay_patches axs (g # rest) = overlay_patches axs [g]"
  by (induction axs) (auto simp add: compound_path_first [of _ _ g rest] split: sum.splits)

lemma compound_path_polygon:
  assumes "2 \<le> length ext"
  shows "compound_path xlim ylim (Polygon ext holes # rest) =
      Inr \<lparr> vertices = [(fst xlim, fst ylim), (snd xlim, fst ylim), (snd xlim, snd ylim),
                         (fst xlim, snd ylim), (fst xlim, fst ylim)] @ ext,
            codes = [MOVETO, LINETO, LINETO, LINETO, CLOSEPOLY] @
                    [MOVETO] @ replicate (length ext - 2) LINETO @ [CLOSEPOLY] \<rparr>"
  using assms
  by (simp add: compound_path_def iloc0_def Path_def outer_coords_def outer_codes_def
      inner_codes_def)

lemma overlay_patches_polygon:
  assumes "2 \<le> length ext"
  shows "overlay_patches axs (Polygon ext holes # rest) =
      Inr (map (\<lambda>(xlim, ylim).
             \<lparr> patch_path =
                 \<lparr> vertices = [(fst xlim, fst ylim), (snd xlim, fst ylim), (snd xlim, snd ylim),
                                (fst xlim, snd ylim), (fst xlim, fst ylim)] @ ext,
                   codes = [MOVETO, LINETO, LINETO, LINETO, CLOSEPOLY] @
                           [MOVETO] @ replicate (length ext - 2) LINETO @ [CLOSEPOLY] \<rparr>,
               facecolor = ''white'', alpha = 1, zorder = 10 \<rparr>) axs)"
proof (induction axs)
  case Nil
  show ?case by simp
next
  case (Cons ax axs)
  obtain xlim ylim where ax: "ax = (xlim, ylim)" by (cases ax)
  show ?case
    unfolding ax overlay_patches.simps compound_path_polygon [OF assms] Cons.IH
    by simp
qed

text \<open>
  C7. When the first geometry of the shapefile is a polygon whose exterior ring has at
  least two coordinates, the compound path is the rectangle of the axes limits followed by
  that exterior ring, with exactly two sub-paths (the rectangle and one hole); the loop
  puts on every axis one white patch that carries this path for the limits of that axis,
  and this list of patches is what the visualization stage stores in the figure; and for
  any first geometry, the path of one axis and the patches of all axes are the same
  whatever other features the shapefile holds.
\<close>

theorem overlay_first_geometry_only:
  assumes "2 \<le> length ext"
  shows "compound_path (x0, x1) (y0, y1) (Polygon ext holes # rest) =
      Inr \<lparr> vertices = [(x0, y0), (x1, y0), (x1, y1), (x0, y1), (x0, y0)] @ ext,
            codes = [MOVETO, LINETO, LINETO, LINETO, CLOSEPOLY] @
                    [MOVETO] @ replicate (length ext - 2) LINETO @ [CLOSEPOLY] \<rparr> \<and>
    length (filter (\<lambda>c. c = MOVETO)
      ([MOVETO, LINETO, LINETO, LINETO, CLOSEPOLY] @
       [MOVETO] @ replicate (length ext - 2) LINETO @ [CLOSEPOLY])) = 2 \<and>
    compound_path xlim ylim (g # others) = compound_path xlim ylim [g] \<and>
    overlay_patches axs (g # others) = overlay_patches axs [g] \<and>
    overlay_patches axs (Polygon ext holes # rest) =
      Inr (map (\<lambda>(xlim, ylim).
             \<lparr> patch_path =
                 \<lparr> vertices = [(fst xlim, fst ylim), (snd xlim, fst ylim), (snd xlim, snd ylim),
                                (fst xlim, snd ylim), (fst xlim, fst ylim)] @ ext,
                   codes = [MOVETO, LINETO, LINETO, LINETO, CLOSEPOLY] @
                           [MOVETO] @ replicate (length ext - 2) LINETO @ [CLOSEPOLY] \<rparr>,
               facecolor = ''white'', alpha = 1, zorder = 10 \<rparr>) axs) \<and>
    (band_math r = Inr a \<and> shapefile_result env = Inr (Polygon ext holes # rest) \<longrightarrow>
       visualize env r s =
         (s\<lparr>fig := Some \<lparr> fig_display = prepare_display a,
             fig_patches = map (\<lambda>(xlim, ylim).
               \<lparr> patch_path =
                   \<lparr> vertices = [(fst xlim, fst ylim), (snd xlim, fst ylim), (snd xlim, snd ylim),
                                  (fst xlim, snd ylim), (fst xlim, fst ylim)] @ ext,
                     codes = [MOVETO, LINETO, LINETO, LINETO, CLOSEPOLY] @
                             [MOVETO] @ replicate (length ext - 2) LINETO @ [CLOSEPOLY] \<rparr>,
                 facecolor = ''white'', alpha = 1, zorder = 10 \<rparr>) (axes_limits env) \<rparr>\<rparr>,
          None))"
proof -
  have c1: "compound_path (x0, x1) (y0, y1) (Polygon ext holes # rest) =
      Inr \<lparr> vertices = [(x0, y0), (x1, y0), (x1, y1), (x0, y1), (x0, y0)] @ ext,
            codes = [MOVETO, LINETO, LINETO, LINETO, CLOSEPOLY] @
                    [MOVETO] @ replicate (length ext - 2) LINETO @ [CLOSEPOLY] \<rparr>"
    using compound_path_polygon [OF assms, of "(x0, x1)" "(y0, y1)"] by simp
  have c5: "band_math r = Inr a \<and> shapefile_result env = Inr (Polygon ext holes # rest) \<longrightarrow>
       visualize env r s =
         (s\<lparr>fig := Some \<lparr> fig_display = prepare_display a,
             fig_patches = map (\<lambda>(xlim, ylim).
               \<lparr> patch_path =
                   \<lparr> vertices = [(fst xlim, fst ylim), (snd xlim, fst ylim), (snd xlim, snd ylim),
                                  (fst xlim, snd ylim), (fst xlim, fst ylim)] @ ext,
                     codes = [MOVETO, LINETO, LINETO, LINETO, CLOSEPOLY] @
                             [MOVETO] @ replicate (length ext - 2) LINETO @ [CLOSEPOLY] \<rparr>,
                 facecolor = ''white'', alpha = 1, zorder = 10 \<rparr>) (axes_limits env) \<rparr>\<rparr>,
          None)"
    by (simp add: visualize_def overlay_patches_polygon [OF assms])
  show ?thesis
    by (intro conjI c1 c5 overlay_patches_polygon [OF assms]
        compound_path_first overlay_patches_first) simp
qed

theorem overlay_first_geometry_only_witness:
  "2 \<le> length [(0, 0), (1, 0), (1, 1), (0, 0) :: point] \<and>
   band_math scenario_raster = Inr scenario \<and>
   shapefile_result (no_credentials_env
      \<lparr>shapefile_result := Inr [Polygon [(0, 0), (1, 0), (1, 1), (0, 0)] [],
                                Polygon [(5, 5), (6, 5), (6, 6), (5, 5)] []]\<rparr>)
     = Inr [Polygon [(0, 0), (1, 0), (1, 1), (0, 0)] [],
            Polygon [(5, 5), (6, 5), (6, 6), (5, 5)] []] \<and>
   compound_path (- 1, 2) (- 1, 2)
     [Polygon [(0, 0), (1, 0), (1, 1), (0, 0)] [], Polygon [(5, 5), (6, 5), (6, 6), (5, 5)] []] =
      Inr \<lparr> vertices = [(- 1, - 1), (2, - 1), (2, 2), (- 1, 2), (- 1, - 1),
                         (0, 0), (1, 0), (1, 1), (0, 0)],
            codes = [MOVETO, LINETO, LINETO, LINETO, CLOSEPOLY,
                     MOVETO, LINETO, LINETO, CLOSEPOLY] \<rparr> \<and>
   overlay_patches [((- 1, 2), (- 1, 2)), ((0, 3), (0, 3))]
     [Polygon [(0, 0), (1, 0), (1, 1), (0, 0)] [], Polygon [(5, 5), (6, 5), (6, 6), (5, 5)] []] =
      Inr [\<lparr> patch_path =
               \<lparr> vertices = [(- 1, - 1), (2, - 1), (2, 2), (- 1, 2), (- 1, - 1),
                              (0, 0), (1, 0), (1, 1), (0, 0)],
                 codes = [MOVETO, LINETO, LINETO, LINETO, CLOSEPOLY,
                          MOVETO, LINETO, LINETO, CLOSEPOLY] \<rparr>,
             facecolor = ''white'', alpha = 1, zorder = 10 \<rparr>,
           \<lparr> patch_path =
               \<lparr> vertices = [(0, 0), (3, 0), (3, 3), (0, 3), (0, 0),
                              (0, 0), (1, 0), (1, 1), (0, 0)],
                 codes = [MOVETO, LINETO, LINETO, LINETO, CLOSEPOLY,
                          MOVETO, LINETO, LINETO, CLOSEPOLY] \<rparr>,
             facecolor = ''white'', alpha = 1, zorder = 10 \<rparr>] \<and>
   map_option fig_patches (fig (fst (visualize (no_credentials_env
      \<lparr>shapefile_result := Inr [Polygon [(0, 0), (1, 0), (1, 1), (0, 0)] [],
                                Polygon [(5, 5), (6, 5), (6, 6), (5, 5)] []]\<rparr>)
      scenario_raster initial))) =
      Some [\<lparr> patch_path =
               \<lparr> vertices = [(0, 0), (1, 0), (1, 1), (0, 1), (0, 0),
                              (0, 0), (1, 0), (1, 1), (0, 0)],
                 codes = [MOVETO, LINETO, LINETO, LINETO, CLOSEPOLY,
                          MOVETO, LINETO, LINETO, CLOSEPOLY] \<rparr>,
             facecolor = ''white'', alpha = 1, zorder = 10 \<rparr>,
           \<lparr> patch_path =
               \<lparr> vertices = [(0, 0), (1, 0), (1, 1), (0, 1), (0, 0),
                              (0, 0), (1, 0), (1, 1), (0, 0)],
                 codes = [MOVETO, LINETO, LINETO, LINETO, CLOSEPOLY,
                          MOVETO, LINETO, LINETO, CLOSEPOLY] \<rparr>,
             facecolor = ''white'', alpha = 1, zorder = 10 \<rparr>]"
proof -
  let ?env = "no_credentials_env
      \<lparr>shapefile_result := Inr [Polygon [(0, 0), (1, 0), (1, 1), (0, 0)] [],
                                Polygon [(5, 5), (6, 5), (6, 6), (5, 5)] []]\<rparr>"
  have h: "2 \<le> length [(0, 0), (1, 0), (1, 1), (0, 0) :: point]" by simp
  have sf: "shapefile_result ?env = Inr [Polygon [(0, 0), (1, 0), (1, 1), (0, 0)] [],
            Polygon [(5, 5), (6, 5), (6, 6), (5, 5)] []]" by simp
  have ax: "axes_limits ?env = [((0, 1), (0, 1)), ((0, 1), (0, 1))]"
    by (simp add: no_credentials_env_def)
  note t = overlay_first_geometry_only [OF h, of "- 1" 2 "- 1" 2 "[]"
      "[Polygon [(5, 5), (6, 5), (6, 6), (5, 5)] []]" _ _ _ _
      "[((- 1, 2), (- 1, 2)), ((0, 3), (0, 3))]" scenario_raster scenario ?env initial]
  note t1 = conjunct1 [OF t]
  note t5 = conjunct1 [OF conjunct2 [OF conjunct2 [OF conjunct2 [OF conjunct2 [OF t]]]]]
  note t6 = conjunct2 [OF conjunct2 [OF conjunct2 [OF conjunct2 [OF conjunct2 [OF t]]]]]
  have c: "compound_path (- 1, 2) (- 1, 2)
     [Polygon [(0, 0), (1, 0), (1, 1), (0, 0)] [], Polygon [(5, 5), (6, 5), (6, 6), (5, 5)] []] =
      Inr \<lparr> vertices = [(- 1, - 1), (2, - 1), (2, 2), (- 1, 2), (- 1, - 1),
                         (0, 0), (1, 0), (1, 1), (0, 0)],
            codes = [MOVETO, LINETO, LINETO, LINETO, CLOSEPOLY,
                     MOVETO, LINETO, LINETO, CLOSEPOLY] \<rparr>"
    by (rule trans [OF t1]) (simp add: eval_nat_numeral)
  have o: "overlay_patches [((- 1, 2), (- 1, 2)), ((0, 3), (0, 3))]
     [Polygon [(0, 0), (1, 0), (1, 1), (0, 0)] [], Polygon [(5, 5), (6, 5), (6, 6), (5, 5)] []] =
      Inr [\<lparr> patch_path =
               \<lparr> vertices = [(- 1, - 1), (2, - 1), (2, 2), (- 1, 2), (- 1, - 1),
                              (0, 0), (1, 0), (1, 1), (0, 0)],
                 codes = [MOVETO, LINETO, LINETO, LINETO, CLOSEPOLY,
                          MOVETO, LINETO, LINETO, CLOSEPOLY] \<rparr>,
             facecolor = ''white'', alpha = 1, zorder = 10 \<rparr>,
           \<lparr> patch_path =
               \<lparr> vertices = [(0, 0), (3, 0), (3, 3), (0, 3), (0, 0),
                              (0, 0), (1, 0), (1, 1), (0, 0)],
                 codes = [MOVETO, LINETO, LINETO, LINETO, CLOSEPOLY,
                          MOVETO, LINETO, LINETO, CLOSEPOLY] \<rparr>,
             facecolor = ''white'', alpha = 1, zorder = 10 \<rparr>]"
    by (rule trans [OF t5]) (simp add: eval_nat_numeral)
  have v: "visualize ?env scenario_raster initial =
         (initial\<lparr>fig := Some \<lparr> fig_display = prepare_display scenario,
             fig_patches = map (\<lambda>(xlim, ylim).
               \<lparr> patch_path =
                   \<lparr> vertices = [(fst xlim, fst ylim), (snd xlim, fst ylim), (snd xlim, snd ylim),
                                  (fst xlim, snd ylim), (fst xlim, fst ylim)]
                                  @ [(0, 0), (1, 0), (1, 1), (0, 0)],
                     codes = [MOVETO, LINETO, LINETO, LINETO, CLOSEPOLY] @
                             [MOVETO] @ replicate (length [(0, 0), (1, 0), (1, 1), (0, 0) :: point] - 2) LINETO
                             @ [CLOSEPOLY] \<rparr>,
                 facecolor = ''white'', alpha = 1, zorder = 10 \<rparr>) (axes_limits ?env) \<rparr>\<rparr>,
          None)"
    by (rule mp [OF t6]) (intro conjI scenario_eq sf)
  have f: "map_option fig_patches (fig (fst (visualize ?env scenario_raster initial))) =
      Some [\<lparr> patch_path =
               \<lparr> vertices = [(0, 0), (1, 0), (1, 1), (0, 1), (0, 0),
                              (0, 0), (1, 0), (1, 1), (0, 0)],
                 codes = [MOVETO, LINETO, LINETO, LINETO, CLOSEPOLY,
                          MOVETO, LINETO, LINETO, CLOSEPOLY] \<rparr>,
             facecolor = ''white'', alpha = 1, zorder = 10 \<rparr>,
           \<lparr> patch_path =
               \<lparr> vertices = [(0, 0), (1, 0), (1, 1), (0, 1), (0, 0),
                              (0, 0), (1, 0), (1, 1), (0, 0)],
                 codes = [MOVETO, LINETO, LINETO, LINETO, CLOSEPOLY,
                          MOVETO, LINETO, LINETO, CLOSEPOLY] \<rparr>,
             facecolor = ''white'', alpha = 1, zorder = 10 \<rparr>]"
    unfolding v ax by (simp add: eval_nat_numeral)
  show ?thesis by (intro conjI h scenario_eq sf c o f)
qed

end
